theory Spec2Isabelle
  imports Main "HOL-Library.Word" "HOL-Library.Sublist" "HOL-Library.Char_ord"
    "HOL-Library.List_Lexorder"
begin

unbundle bit_operations_syntax

section \<open>Data model of package tracelog\<close>

text \<open>
  An \<open>io.Writer\<close> as the package uses it: \<open>ioutil.Discard\<close>, the two console
  streams, an opened file (named by its descriptor) and the fan-out writer that
  \<open>io.MultiWriter\<close> builds from the writers it is given, in their order.
\<close>

datatype writer =
    Discard
  | Stdout
  | Stderr
  | FileHandle nat
  | MultiWriter "writer list"

text \<open>A \<open>*log.Logger\<close> made by \<open>log.New(out, prefix, flags)\<close>.\<close>

record log_Logger =
  l_out :: writer
  l_prefix :: string
  l_flags :: nat

type_synonym int32 = "32 word"

text \<open>Go's \<open>error\<close> interface: \<open>None\<close> is \<open>nil\<close>, \<open>Some e\<close> an error whose
  \<open>Error()\<close> text is \<open>e\<close>.\<close>

type_synonym error = "string option"

record emailConfiguration =
  Host :: string
  Port :: int
  UserName :: string
  Password :: string
  To :: "string list"

text \<open>
  The struct \<open>traceLog\<close>. Pointer fields are options (\<open>None\<close> is \<open>nil\<close>). The
  mutex \<open>Serialize\<close> is the flag "locked"; its zero value is unlocked. The fields
  \<open>Auth\<close> and \<open>Template\<close> of \<open>emailConfiguration\<close> are functions of the other
  fields (\<open>smtp.PlainAuth\<close> of them, the parsed \<open>EmailScript\<close>) and are left out.
\<close>

record traceLog =
  tl_LogLevel :: int32
  tl_Serialize :: bool
  tl_EmailConfiguration :: "emailConfiguration option"
  tl_Trace :: "log_Logger option"
  tl_Info :: "log_Logger option"
  tl_Warning :: "log_Logger option"
  tl_Error :: "log_Logger option"
  tl_File :: "log_Logger option"
  tl_LogFile :: "nat option"

definition LEVEL_TRACE :: int32 where "LEVEL_TRACE = 1"
definition LEVEL_INFO :: int32 where "LEVEL_INFO = 2"
definition LEVEL_WARN :: int32 where "LEVEL_WARN = 4"
definition LEVEL_ERROR :: int32 where "LEVEL_ERROR = 8"

text \<open>\<open>log.Ldate | log.Ltime | log.Lshortfile\<close>\<close>

definition std_flags :: nat where "std_flags = 19"

definition log_New :: "writer \<Rightarrow> string \<Rightarrow> nat \<Rightarrow> log_Logger" where
  "log_New out p fl = \<lparr>l_out = out, l_prefix = p, l_flags = fl\<rparr>"

text \<open>The zero value of the struct, which the package variable \<open>logger\<close> holds at
  program start and which a composite literal leaves in every field it does not name.\<close>

definition zero_traceLog :: traceLog where
  "zero_traceLog = \<lparr>tl_LogLevel = 0, tl_Serialize = False, tl_EmailConfiguration = None, tl_Trace = None,
     tl_Info = None, tl_Warning = None, tl_Error = None, tl_File = None, tl_LogFile = None\<rparr>"

section \<open>The world the package acts on\<close>

text \<open>
  A value passed as \<open>interface{}\<close>: a format argument or the value of a panic.
\<close>

datatype any =
    AString string
  | AInt int
  | ATime int
  | AError string
  | ARuntimeError string

text \<open>
  How a call ends: it returns, it panics with a value (which unwinds into the caller
  unless a deferred call recovers it), or the process ends (\<open>log.Fatalf\<close>, or a fatal
  error of the runtime, which no \<open>recover\<close> stops).
\<close>

datatype 'a res = Return 'a | Panic any | Exit string

text \<open>How a call into the mail path's libraries ends: with its result, or in a panic.\<close>

datatype 'a outcome = Returns 'a | Panics any

record fileInfo =
  fi_Name :: string
  fi_IsDir :: bool

record email_parameters =
  p_From :: string
  p_To :: string
  p_Subject :: string
  p_Message :: string

record mail =
  m_addr :: string
  m_from :: string
  m_to :: "string list"
  m_msg :: string

text \<open>
  The answers of everything outside the package: the standard library's formatting of
  a caller's format string, the clock, the file system and the mail transport. The
  template execution and the mail transport get the number of earlier attempts, so
  that their behaviour can differ from one attempt to the next. \<open>file_Readdir\<close> is
  what \<open>os.Open\<close> of a directory followed by \<open>Readdir(-1)\<close> gives: the entries in the
  order of the directory, or the error of either call.
\<close>

record env =
  fmt_Sprintf :: "string \<Rightarrow> any list \<Rightarrow> string"
  strconv_Quote :: "string \<Rightarrow> string"
  time_Now :: "int \<times> int \<times> int"
  time_Format :: "string \<Rightarrow> string"
  os_MkdirAll :: "string \<Rightarrow> error"
  os_Create :: "string \<Rightarrow> string + nat"
  file_Readdir :: "string \<Rightarrow> string + fileInfo list"
  os_RemoveAll :: "string \<Rightarrow> error"
  file_Close :: "nat \<Rightarrow> error"
  runtime_Stack :: string
  template_Execute :: "nat \<Rightarrow> error outcome"
  smtp_SendMail :: "nat \<Rightarrow> mail \<Rightarrow> error outcome"

text \<open>
  One write of a logger to its sink: whether the mutex was held, the sink, the logger's
  prefix and the line. (The date, time and source position that \<open>log\<close> puts between
  prefix and line are not modelled.)
\<close>

record write_event =
  we_locked :: bool
  we_out :: writer
  we_prefix :: string
  we_line :: string

text \<open>
  The package variable \<open>logger\<close> and the trace of what the package did to the outside:
  writes to sinks, template executions and mail hand-offs (each with the state of the
  mutex at that moment), calls of \<open>os.RemoveAll\<close>, and the files opened and not closed.
\<close>

record world =
  logger :: traceLog
  writes :: "write_event list"
  renders :: "(bool \<times> email_parameters) list"
  mails :: "(bool \<times> mail) list"
  rm_calls :: "string list"
  open_files :: "nat list"

text \<open>The world at program start: the zero logger, nothing done yet.\<close>

definition world0 :: world where
  "world0 = \<lparr>logger = zero_traceLog, writes = [], renders = [], mails = [], rm_calls = [],
     open_files = []\<rparr>"

definition and_then ::
  "'a res \<times> world \<Rightarrow> ('a \<Rightarrow> world \<Rightarrow> 'b res \<times> world) \<Rightarrow> 'b res \<times> world" where
  "and_then m k =
    (case m of
       (Return x, w) \<Rightarrow> k x w
     | (Panic r, w) \<Rightarrow> (Panic r, w)
     | (Exit s, w) \<Rightarrow> (Exit s, w))"

subsection \<open>The mutex and the standard logger\<close>

text \<open>
  \<open>logger.Serialize.Lock()\<close> and \<open>Unlock()\<close> for one caller at a time: locking a locked
  mutex blocks for ever, which the runtime of a program with nothing else to run ends
  with a fatal error; unlocking an unlocked mutex is a fatal error too.
\<close>

definition Lock :: "world \<Rightarrow> unit res \<times> world" where
  "Lock w =
    (if tl_Serialize (logger w)
     then (Exit ''fatal error: all goroutines are asleep - deadlock!'', w)
     else (Return (), w\<lparr>logger := (logger w)\<lparr>tl_Serialize := True\<rparr>\<rparr>))"

definition Unlock :: "world \<Rightarrow> unit res \<times> world" where
  "Unlock w =
    (if tl_Serialize (logger w)
     then (Return (), w\<lparr>logger := (logger w)\<lparr>tl_Serialize := False\<rparr>\<rparr>)
     else (Exit ''fatal error: sync: unlock of unlocked mutex'', w))"

definition nil_dereference :: any where
  "nil_dereference = ARuntimeError ''invalid memory address or nil pointer dereference''"

text \<open>
  \<open>(*log.Logger).Output(calldepth, s)\<close>: one write of the line to the logger's sink, a
  newline appended when \<open>s\<close> does not end in one (\<open>output_line\<close>); \<open>output_event\<close> is
  the write that a logger makes of a line. The call depth only selects the source
  position of the header. On a nil logger the call panics. The error of the write is
  dropped by every caller in the package, so none is returned here.
\<close>

definition output_line :: "string \<Rightarrow> string" where
  "output_line s = (if s \<noteq> [] \<and> last s = CHR ''\<newline>'' then s else s @ ''\<newline>'')"

definition output_event :: "log_Logger \<Rightarrow> string \<Rightarrow> bool \<Rightarrow> write_event" where
  "output_event lg s locked =
    \<lparr>we_locked = locked, we_out = l_out lg, we_prefix = l_prefix lg, we_line = output_line s\<rparr>"

definition log_Output :: "log_Logger option \<Rightarrow> int \<Rightarrow> string \<Rightarrow> world \<Rightarrow> unit res \<times> world" where
  "log_Output l calldepth s w =
    (case l of
       None \<Rightarrow> (Panic nil_dereference, w)
     | Some lg \<Rightarrow>
        (Return (), w\<lparr>writes := writes w @ [output_event lg s (tl_Serialize (logger w))]\<rparr>))"

text \<open>The verb \<open>%s\<close> applied to an \<open>error\<close>.\<close>

definition fmt_s_error :: "error \<Rightarrow> string" where
  "fmt_s_error err = (case err of None \<Rightarrow> ''%!s(<nil>)'' | Some e \<Rightarrow> e)"

section \<open>The logging calls\<close>

text \<open>
  Each call locks, hands one formatted line to the logger of its severity, and unlocks.
  A format string of the source that has only \<open>%s\<close> verbs is written out as a
  concatenation; the caller's own \<open>format\<close> and arguments go through \<open>fmt.Sprintf\<close>.
\<close>

definition Started :: "string \<Rightarrow> string \<Rightarrow> world \<Rightarrow> unit res \<times> world" where
  "Started title functionName w =
    and_then (Lock w) (\<lambda>_ w.
    and_then (log_Output (tl_Trace (logger w)) 2
      (title @ '' : '' @ functionName @ '' : Started\<newline>'') w) (\<lambda>_ w.
    Unlock w))"

definition Startedf :: "env \<Rightarrow> string \<Rightarrow> string \<Rightarrow> string \<Rightarrow> any list \<Rightarrow> world \<Rightarrow> unit res \<times> world" where
  "Startedf env title functionName format a w =
    and_then (Lock w) (\<lambda>_ w.
    and_then (log_Output (tl_Trace (logger w)) 2
      (title @ '' : '' @ functionName @ '' : Started : '' @ fmt_Sprintf env format a @ ''\<newline>'') w) (\<lambda>_ w.
    Unlock w))"

definition Completed :: "string \<Rightarrow> string \<Rightarrow> world \<Rightarrow> unit res \<times> world" where
  "Completed title functionName w =
    and_then (Lock w) (\<lambda>_ w.
    and_then (log_Output (tl_Trace (logger w)) 2
      (title @ '' : '' @ functionName @ '' : Completed\<newline>'') w) (\<lambda>_ w.
    Unlock w))"

definition Completedf :: "env \<Rightarrow> string \<Rightarrow> string \<Rightarrow> string \<Rightarrow> any list \<Rightarrow> world \<Rightarrow> unit res \<times> world" where
  "Completedf env title functionName format a w =
    and_then (Lock w) (\<lambda>_ w.
    and_then (log_Output (tl_Trace (logger w)) 2
      (title @ '' : '' @ functionName @ '' : Completed : '' @ fmt_Sprintf env format a @ ''\<newline>'') w) (\<lambda>_ w.
    Unlock w))"

definition CompletedError :: "error \<Rightarrow> string \<Rightarrow> string \<Rightarrow> world \<Rightarrow> unit res \<times> world" where
  "CompletedError err title functionName w =
    and_then (Lock w) (\<lambda>_ w.
    and_then (log_Output (tl_Error (logger w)) 2
      (title @ '' : '' @ functionName @ '' : Completed : ERROR : '' @ fmt_s_error err @ ''\<newline>'') w) (\<lambda>_ w.
    Unlock w))"

definition CompletedErrorf ::
  "env \<Rightarrow> error \<Rightarrow> string \<Rightarrow> string \<Rightarrow> string \<Rightarrow> any list \<Rightarrow> world \<Rightarrow> unit res \<times> world" where
  "CompletedErrorf env err title functionName format a w =
    and_then (Lock w) (\<lambda>_ w.
    and_then (log_Output (tl_Error (logger w)) 2
      (title @ '' : '' @ functionName @ '' : Completed : ERROR : '' @ fmt_Sprintf env format a
         @ '' : '' @ fmt_s_error err @ ''\<newline>'') w) (\<lambda>_ w.
    Unlock w))"

definition Trace :: "env \<Rightarrow> string \<Rightarrow> string \<Rightarrow> string \<Rightarrow> any list \<Rightarrow> world \<Rightarrow> unit res \<times> world" where
  "Trace env title functionName format a w =
    and_then (Lock w) (\<lambda>_ w.
    and_then (log_Output (tl_Trace (logger w)) 2
      (title @ '' : '' @ functionName @ '' : Info : '' @ fmt_Sprintf env format a @ ''\<newline>'') w) (\<lambda>_ w.
    Unlock w))"

definition Info :: "env \<Rightarrow> string \<Rightarrow> string \<Rightarrow> string \<Rightarrow> any list \<Rightarrow> world \<Rightarrow> unit res \<times> world" where
  "Info env title functionName format a w =
    and_then (Lock w) (\<lambda>_ w.
    and_then (log_Output (tl_Info (logger w)) 2
      (title @ '' : '' @ functionName @ '' : Info : '' @ fmt_Sprintf env format a @ ''\<newline>'') w) (\<lambda>_ w.
    Unlock w))"

definition Warning :: "env \<Rightarrow> string \<Rightarrow> string \<Rightarrow> string \<Rightarrow> any list \<Rightarrow> world \<Rightarrow> unit res \<times> world" where
  "Warning env title functionName format a w =
    and_then (Lock w) (\<lambda>_ w.
    and_then (log_Output (tl_Warning (logger w)) 2
      (title @ '' : '' @ functionName @ '' : Info : '' @ fmt_Sprintf env format a @ ''\<newline>'') w) (\<lambda>_ w.
    Unlock w))"

definition Error :: "error \<Rightarrow> string \<Rightarrow> string \<Rightarrow> world \<Rightarrow> unit res \<times> world" where
  "Error err title functionName w =
    and_then (Lock w) (\<lambda>_ w.
    and_then (log_Output (tl_Error (logger w)) 2
      (title @ '' : '' @ functionName @ '' : ERROR : '' @ fmt_s_error err @ ''\<newline>'') w) (\<lambda>_ w.
    Unlock w))"

definition Errorf ::
  "env \<Rightarrow> error \<Rightarrow> string \<Rightarrow> string \<Rightarrow> string \<Rightarrow> any list \<Rightarrow> world \<Rightarrow> unit res \<times> world" where
  "Errorf env err title functionName format a w =
    and_then (Lock w) (\<lambda>_ w.
    and_then (log_Output (tl_Error (logger w)) 2
      (title @ '' : '' @ functionName @ '' : ERROR : '' @ fmt_Sprintf env format a
         @ '' : '' @ fmt_s_error err @ ''\<newline>'') w) (\<lambda>_ w.
    Unlock w))"

subsection \<open>The variants with a call depth\<close>

definition Startedcd :: "int \<Rightarrow> string \<Rightarrow> string \<Rightarrow> world \<Rightarrow> unit res \<times> world" where
  "Startedcd callDepth title functionName w =
    and_then (Lock w) (\<lambda>_ w.
    and_then (log_Output (tl_Trace (logger w)) callDepth
      (title @ '' : '' @ functionName @ '' : Started\<newline>'') w) (\<lambda>_ w.
    Unlock w))"

definition Startedfcd ::
  "env \<Rightarrow> int \<Rightarrow> string \<Rightarrow> string \<Rightarrow> string \<Rightarrow> any list \<Rightarrow> world \<Rightarrow> unit res \<times> world" where
  "Startedfcd env callDepth title functionName format a w =
    and_then (Lock w) (\<lambda>_ w.
    and_then (log_Output (tl_Trace (logger w)) callDepth
      (title @ '' : '' @ functionName @ '' : Started : '' @ fmt_Sprintf env format a @ ''\<newline>'') w) (\<lambda>_ w.
    Unlock w))"

definition Completedcd :: "int \<Rightarrow> string \<Rightarrow> string \<Rightarrow> world \<Rightarrow> unit res \<times> world" where
  "Completedcd callDepth title functionName w =
    and_then (Lock w) (\<lambda>_ w.
    and_then (log_Output (tl_Trace (logger w)) callDepth
      (title @ '' : '' @ functionName @ '' : Completed\<newline>'') w) (\<lambda>_ w.
    Unlock w))"

definition Completedfcd ::
  "env \<Rightarrow> int \<Rightarrow> string \<Rightarrow> string \<Rightarrow> string \<Rightarrow> any list \<Rightarrow> world \<Rightarrow> unit res \<times> world" where
  "Completedfcd env callDepth title functionName format a w =
    and_then (Lock w) (\<lambda>_ w.
    and_then (log_Output (tl_Trace (logger w)) callDepth
      (title @ '' : '' @ functionName @ '' : Completed : '' @ fmt_Sprintf env format a @ ''\<newline>'') w) (\<lambda>_ w.
    Unlock w))"

definition CompletedErrorcd :: "int \<Rightarrow> error \<Rightarrow> string \<Rightarrow> string \<Rightarrow> world \<Rightarrow> unit res \<times> world" where
  "CompletedErrorcd callDepth err title functionName w =
    and_then (Lock w) (\<lambda>_ w.
    and_then (log_Output (tl_Error (logger w)) callDepth
      (title @ '' : '' @ functionName @ '' : Completed : ERROR : '' @ fmt_s_error err @ ''\<newline>'') w) (\<lambda>_ w.
    Unlock w))"

definition CompletedErrorfcd ::
  "env \<Rightarrow> int \<Rightarrow> error \<Rightarrow> string \<Rightarrow> string \<Rightarrow> string \<Rightarrow> any list \<Rightarrow> world \<Rightarrow> unit res \<times> world" where
  "CompletedErrorfcd env callDepth err title functionName format a w =
    and_then (Lock w) (\<lambda>_ w.
    and_then (log_Output (tl_Error (logger w)) callDepth
      (title @ '' : '' @ functionName @ '' : Completed : ERROR : '' @ fmt_Sprintf env format a
         @ '' : '' @ fmt_s_error err @ ''\<newline>'') w) (\<lambda>_ w.
    Unlock w))"

definition Tracecd ::
  "env \<Rightarrow> int \<Rightarrow> string \<Rightarrow> string \<Rightarrow> string \<Rightarrow> any list \<Rightarrow> world \<Rightarrow> unit res \<times> world" where
  "Tracecd env callDepth title functionName format a w =
    and_then (Lock w) (\<lambda>_ w.
    and_then (log_Output (tl_Trace (logger w)) callDepth
      (title @ '' : '' @ functionName @ '' : Info : '' @ fmt_Sprintf env format a @ ''\<newline>'') w) (\<lambda>_ w.
    Unlock w))"

definition Infocd ::
  "env \<Rightarrow> int \<Rightarrow> string \<Rightarrow> string \<Rightarrow> string \<Rightarrow> any list \<Rightarrow> world \<Rightarrow> unit res \<times> world" where
  "Infocd env callDepth title functionName format a w =
    and_then (Lock w) (\<lambda>_ w.
    and_then (log_Output (tl_Info (logger w)) callDepth
      (title @ '' : '' @ functionName @ '' : Info : '' @ fmt_Sprintf env format a @ ''\<newline>'') w) (\<lambda>_ w.
    Unlock w))"

definition Warningcd ::
  "env \<Rightarrow> int \<Rightarrow> string \<Rightarrow> string \<Rightarrow> string \<Rightarrow> any list \<Rightarrow> world \<Rightarrow> unit res \<times> world" where
  "Warningcd env callDepth title functionName format a w =
    and_then (Lock w) (\<lambda>_ w.
    and_then (log_Output (tl_Warning (logger w)) callDepth
      (title @ '' : '' @ functionName @ '' : Info : '' @ fmt_Sprintf env format a @ ''\<newline>'') w) (\<lambda>_ w.
    Unlock w))"

definition Errorcd :: "int \<Rightarrow> error \<Rightarrow> string \<Rightarrow> string \<Rightarrow> world \<Rightarrow> unit res \<times> world" where
  "Errorcd callDepth err title functionName w =
    and_then (Lock w) (\<lambda>_ w.
    and_then (log_Output (tl_Error (logger w)) callDepth
      (title @ '' : '' @ functionName @ '' : ERROR : '' @ fmt_s_error err @ ''\<newline>'') w) (\<lambda>_ w.
    Unlock w))"

definition Errorfcd ::
  "env \<Rightarrow> int \<Rightarrow> error \<Rightarrow> string \<Rightarrow> string \<Rightarrow> string \<Rightarrow> any list \<Rightarrow> world \<Rightarrow> unit res \<times> world" where
  "Errorfcd env callDepth err title functionName format a w =
    and_then (Lock w) (\<lambda>_ w.
    and_then (log_Output (tl_Error (logger w)) callDepth
      (title @ '' : '' @ functionName @ '' : ERROR : '' @ fmt_Sprintf env format a
         @ '' : '' @ fmt_s_error err @ ''\<newline>'') w) (\<lambda>_ w.
    Unlock w))"

section \<open>turnOnLogging\<close>

text \<open>
  The four handles after the level tests (four independent \<open>if\<close>s, in the source's
  order) and after the file upgrade. The function assigns the package
  variable \<open>logger\<close> a composite literal that names the four loggers only, then stores
  the level.
\<close>

definition level_handles :: "int32 \<Rightarrow> writer \<times> writer \<times> writer \<times> writer" where
  "level_handles logLevel =
    (let (traceHandle, infoHandle, warnHandle, errorHandle) = (Discard, Discard, Discard, Discard);
         (traceHandle, infoHandle, warnHandle, errorHandle) =
           (if logLevel AND LEVEL_TRACE \<noteq> 0 then (Stdout, Stdout, Stdout, Stderr)
            else (traceHandle, infoHandle, warnHandle, errorHandle));
         (infoHandle, warnHandle, errorHandle) =
           (if logLevel AND LEVEL_INFO \<noteq> 0 then (Stdout, Stdout, Stderr)
            else (infoHandle, warnHandle, errorHandle));
         (warnHandle, errorHandle) =
           (if logLevel AND LEVEL_WARN \<noteq> 0 then (Stdout, Stderr)
            else (warnHandle, errorHandle));
         errorHandle = (if logLevel AND LEVEL_ERROR \<noteq> 0 then Stderr else errorHandle)
     in (traceHandle, infoHandle, warnHandle, errorHandle))"

definition file_upgrade ::
  "writer option \<Rightarrow> writer \<times> writer \<times> writer \<times> writer \<Rightarrow> writer \<times> writer \<times> writer \<times> writer" where
  "file_upgrade fileHandle hs =
    (case fileHandle of
       None \<Rightarrow> hs
     | Some fh \<Rightarrow>
        (let (traceHandle, infoHandle, warnHandle, errorHandle) = hs in
          (if traceHandle = Stdout then MultiWriter [fh, traceHandle] else traceHandle,
           if infoHandle = Stdout then MultiWriter [fh, infoHandle] else infoHandle,
           if warnHandle = Stdout then MultiWriter [fh, warnHandle] else warnHandle,
           if errorHandle = Stderr then MultiWriter [fh, errorHandle] else errorHandle)))"

definition turnOnLogging :: "int32 \<Rightarrow> writer option \<Rightarrow> world \<Rightarrow> world" where
  "turnOnLogging logLevel fileHandle w =
    (let (traceHandle, infoHandle, warnHandle, errorHandle) =
           file_upgrade fileHandle (level_handles logLevel);
         w = w\<lparr>logger := zero_traceLog
           \<lparr>tl_Trace := Some (log_New traceHandle ''TRACE: '' std_flags),
            tl_Info := Some (log_New infoHandle ''INFO: '' std_flags),
            tl_Warning := Some (log_New warnHandle ''WARNING: '' std_flags),
            tl_Error := Some (log_New errorHandle ''ERROR: '' std_flags)\<rparr>\<rparr>
     in w\<lparr>logger := (logger w)\<lparr>tl_LogLevel := logLevel\<rparr>\<rparr>)"

text \<open>The sink a severity writes to: the \<open>out\<close> of its logger.\<close>

datatype severity = SevTrace | SevInfo | SevWarn | SevError

fun severity_logger :: "traceLog \<Rightarrow> severity \<Rightarrow> log_Logger option" where
  "severity_logger t SevTrace = tl_Trace t"
| "severity_logger t SevInfo = tl_Info t"
| "severity_logger t SevWarn = tl_Warning t"
| "severity_logger t SevError = tl_Error t"

definition sink :: "traceLog \<Rightarrow> severity \<Rightarrow> writer option" where
  "sink t s = map_option l_out (severity_logger t s)"

subsection \<open>The cascading rule, as the specification words it\<close>

text \<open>
  If the TRACE bit is set: trace, info and warn go to stdout, error to stderr. Else if
  the INFO bit is set: info and warn to stdout, error to stderr. Else if the WARN bit is
  set: warn to stdout, error to stderr. Else if the ERROR bit is set: error to stderr.
  Whatever is given no stream stays a discard sink. The bits are TRACE(1), INFO(2),
  WARN(4), ERROR(8), that is the bit positions 0 to 3.
\<close>

fun cascade :: "int32 \<Rightarrow> severity \<Rightarrow> writer" where
  "cascade L s =
    (if bit L 0 then (case s of SevError \<Rightarrow> Stderr | _ \<Rightarrow> Stdout)
     else if bit L 1 then (case s of SevTrace \<Rightarrow> Discard | SevError \<Rightarrow> Stderr | _ \<Rightarrow> Stdout)
     else if bit L 2 then (case s of SevWarn \<Rightarrow> Stdout | SevError \<Rightarrow> Stderr | _ \<Rightarrow> Discard)
     else if bit L 3 then (case s of SevError \<Rightarrow> Stderr | _ \<Rightarrow> Discard)
     else Discard)"

text \<open>A sink includes the file when it is a fan-out one of whose writers is the file.\<close>

fun includes_file :: "writer \<Rightarrow> writer \<Rightarrow> bool" where
  "includes_file fh (MultiWriter ws) = (fh \<in> set ws)"
| "includes_file fh _ = False"

section \<open>Email alerts and the recovery of panics\<close>

definition systemAlertSubject :: string where
  "systemAlertSubject = ''TraceLog Exception''"

definition ConfigureEmail :: "string \<Rightarrow> int \<Rightarrow> string \<Rightarrow> string \<Rightarrow> string list \<Rightarrow> world \<Rightarrow> world" where
  "ConfigureEmail host port userName password to w =
    w\<lparr>logger := (logger w)\<lparr>tl_EmailConfiguration :=
      Some \<lparr>Host = host, Port = port, UserName = userName, Password = password, To = to\<rparr>\<rparr>\<rparr>"

fun strings_Join :: "string list \<Rightarrow> string \<Rightarrow> string" where
  "strings_Join [] sep = []"
| "strings_Join [x] sep = x"
| "strings_Join (x # y # ys) sep = x @ sep @ strings_Join (y # ys) sep"

text \<open>The template of \<open>EmailScript\<close>, executed on the parameters (\<open>text/template\<close>
  substitutes the four fields as they are).\<close>

definition EmailScript :: "email_parameters \<Rightarrow> string" where
  "EmailScript p =
    ''From: '' @ p_From p @ ''\<newline>To: '' @ p_To p @ ''\<newline>Subject: '' @ p_Subject p
    @ ''\<newline>MIME-version: 1.0\<newline>Content-Type: text/html; charset='' @ [CHR 0x22] @ ''UTF-8'' @ [CHR 0x22]
    @ ''\<newline>\<newline><html><body>''
    @ p_Message p @ ''</body></html>''"

text \<open>
  The body of \<open>SendEmailException\<close>, before its deferred call runs: the early return
  when no configuration is set, else the template execution (whose error the source
  drops) and the hand-off to \<open>smtp.SendMail\<close>, either of which the environment may
  make panic.
\<close>

definition SendEmailException_body ::
  "env \<Rightarrow> string \<Rightarrow> string \<Rightarrow> any list \<Rightarrow> world \<Rightarrow> error res \<times> world" where
  "SendEmailException_body env subject message a w =
    (case tl_EmailConfiguration (logger w) of
       None \<Rightarrow> (Return None, w)
     | Some cfg \<Rightarrow>
        (let parameters = \<lparr>p_From = UserName cfg, p_To = strings_Join (To cfg) '','',
               p_Subject = subject, p_Message = fmt_Sprintf env message a\<rparr>;
             n = length (renders w);
             w = w\<lparr>renders := renders w @ [(tl_Serialize (logger w), parameters)]\<rparr>
         in case template_Execute env n of
              Panics r \<Rightarrow> (Panic r, w)
            | Returns _ \<Rightarrow>
               (let m = \<lparr>m_addr = fmt_Sprintf env ''%s:%d'' [AString (Host cfg), AInt (Port cfg)],
                      m_from = UserName cfg, m_to = To cfg, m_msg = EmailScript parameters\<rparr>;
                    k = length (mails w);
                    w = w\<lparr>mails := mails w @ [(tl_Serialize (logger w), m)]\<rparr>
                in case smtp_SendMail env k m of
                     Panics r \<Rightarrow> (Panic r, w)
                   | Returns err \<Rightarrow> (Return err, w))))"

text \<open>What \<open>recover()\<close> returns in a deferred call, given how the body ended.\<close>

definition recovered :: "'a res \<Rightarrow> any option" where
  "recovered body = (case body of Panic r \<Rightarrow> Some r | _ \<Rightarrow> None)"

text \<open>
  \<open>SendEmailException\<close> and \<open>CatchPanic\<close> call each other: the secondary alert of
  \<open>CatchPanic\<close> is a call of \<open>SendEmailException\<close>, which defers \<open>CatchPanic\<close> again.
  Nothing in the source bounds this recursion, so the model has fuel: \<open>None\<close> means
  that the calls did not come to an end within it. A recursion that comes to no end
  with any fuel is, in a Go program, one that grows the stack until the runtime ends
  the process with the fatal error of a stack overflow, which no \<open>recover\<close> stops.

  \<open>CatchPanic\<close> gets the error slot (\<open>None\<close> for a nil pointer, else the slot's
  content) and what \<open>recover()\<close> returns, and gives back the slot's new content.
  The result of \<open>SendEmailException\<close> is unnamed, so a recovered panic makes it return
  the zero value \<open>nil\<close>, whatever the deferred call stored in the local \<open>err\<close>. A
  process that exits runs no deferred call.
\<close>

fun SendEmailException ::
      "nat \<Rightarrow> env \<Rightarrow> string \<Rightarrow> string \<Rightarrow> any list \<Rightarrow> world \<Rightarrow> (error res \<times> world) option"
  and CatchPanic ::
      "nat \<Rightarrow> env \<Rightarrow> error option \<Rightarrow> string \<Rightarrow> any option \<Rightarrow> world
        \<Rightarrow> (unit res \<times> error option \<times> world) option"
where
  "SendEmailException 0 env subject message a w = None"
| "SendEmailException (Suc n) env subject message a w =
    (case SendEmailException_body env subject message a w of
       (Exit s, w1) \<Rightarrow> Some (Exit s, w1)
     | (body, w1) \<Rightarrow>
        (let err = (case body of Return e \<Rightarrow> e | _ \<Rightarrow> None) in
         case CatchPanic n env (Some err) ''SendEmailException'' (recovered body) w1 of
           None \<Rightarrow> None
         | Some (Return _, _, w2) \<Rightarrow> Some (Return (case body of Return e \<Rightarrow> e | _ \<Rightarrow> None), w2)
         | Some (Panic p, _, w2) \<Rightarrow> Some (Panic p, w2)
         | Some (Exit s, _, w2) \<Rightarrow> Some (Exit s, w2)))"
| "CatchPanic n env err functionName None w = Some (Return (), err, w)"
| "CatchPanic n env err functionName (Some r) w =
    (case SendEmailException n env systemAlertSubject
            ''%s : PANIC Defered [%s] : Stack Trace : %s''
            [AString functionName, r, AString (runtime_Stack env)] w of
       None \<Rightarrow> None
     | Some (Return _, w1) \<Rightarrow>
         Some (Return (),
               (case err of None \<Rightarrow> None | Some _ \<Rightarrow> Some (Some (fmt_Sprintf env ''%v'' [r]))),
               w1)
     | Some (Panic p, w1) \<Rightarrow> Some (Panic p, err, w1)
     | Some (Exit s, w1) \<Rightarrow> Some (Exit s, err, w1))"

subsection \<open>The alert calls\<close>

definition Alert ::
  "nat \<Rightarrow> env \<Rightarrow> string \<Rightarrow> string \<Rightarrow> string \<Rightarrow> string \<Rightarrow> any list \<Rightarrow> world
    \<Rightarrow> (unit res \<times> world) option" where
  "Alert fuel env subject title functionName format a w =
    (let message = title @ '' : '' @ functionName @ '' : ALERT : '' @ fmt_Sprintf env format a @ ''\<newline>''
     in case and_then (Lock w) (\<lambda>_ w.
             and_then (log_Output (tl_Error (logger w)) 2 message w) (\<lambda>_ w.
             Unlock w)) of
          (Return _, w1) \<Rightarrow>
            map_option (\<lambda>(r, w2). (and_then (r, w2) (\<lambda>_ w. (Return (), w))))
              (SendEmailException fuel env subject message [] w1)
        | (Panic p, w1) \<Rightarrow> Some (Panic p, w1)
        | (Exit s, w1) \<Rightarrow> Some (Exit s, w1))"

definition CompletedAlert ::
  "nat \<Rightarrow> env \<Rightarrow> string \<Rightarrow> string \<Rightarrow> string \<Rightarrow> string \<Rightarrow> any list \<Rightarrow> world
    \<Rightarrow> (unit res \<times> world) option" where
  "CompletedAlert fuel env subject title functionName format a w =
    (let message = title @ '' : '' @ functionName @ '' : Completed : ALERT : ''
                     @ fmt_Sprintf env format a @ ''\<newline>''
     in case and_then (Lock w) (\<lambda>_ w.
             and_then (log_Output (tl_Error (logger w)) 2 message w) (\<lambda>_ w.
             Unlock w)) of
          (Return _, w1) \<Rightarrow>
            map_option (\<lambda>(r, w2). (and_then (r, w2) (\<lambda>_ w. (Return (), w))))
              (SendEmailException fuel env subject message [] w1)
        | (Panic p, w1) \<Rightarrow> Some (Panic p, w1)
        | (Exit s, w1) \<Rightarrow> Some (Exit s, w1))"

definition Alertcd ::
  "nat \<Rightarrow> env \<Rightarrow> int \<Rightarrow> string \<Rightarrow> string \<Rightarrow> string \<Rightarrow> string \<Rightarrow> any list \<Rightarrow> world
    \<Rightarrow> (unit res \<times> world) option" where
  "Alertcd fuel env callDepth subject title functionName format a w =
    (let message = title @ '' : '' @ functionName @ '' : ALERT : '' @ fmt_Sprintf env format a @ ''\<newline>''
     in case and_then (Lock w) (\<lambda>_ w.
             and_then (log_Output (tl_Error (logger w)) callDepth message w) (\<lambda>_ w.
             Unlock w)) of
          (Return _, w1) \<Rightarrow>
            map_option (\<lambda>(r, w2). (and_then (r, w2) (\<lambda>_ w. (Return (), w))))
              (SendEmailException fuel env subject message [] w1)
        | (Panic p, w1) \<Rightarrow> Some (Panic p, w1)
        | (Exit s, w1) \<Rightarrow> Some (Exit s, w1))"

definition CompletedAlertcd ::
  "nat \<Rightarrow> env \<Rightarrow> int \<Rightarrow> string \<Rightarrow> string \<Rightarrow> string \<Rightarrow> string \<Rightarrow> any list \<Rightarrow> world
    \<Rightarrow> (unit res \<times> world) option" where
  "CompletedAlertcd fuel env callDepth subject title functionName format a w =
    (let message = title @ '' : '' @ functionName @ '' : Completed : ALERT : ''
                     @ fmt_Sprintf env format a @ ''\<newline>''
     in case and_then (Lock w) (\<lambda>_ w.
             and_then (log_Output (tl_Error (logger w)) callDepth message w) (\<lambda>_ w.
             Unlock w)) of
          (Return _, w1) \<Rightarrow>
            map_option (\<lambda>(r, w2). (and_then (r, w2) (\<lambda>_ w. (Return (), w))))
              (SendEmailException fuel env subject message [] w1)
        | (Panic p, w1) \<Rightarrow> Some (Panic p, w1)
        | (Exit s, w1) \<Rightarrow> Some (Exit s, w1))"

section \<open>The directory sweep\<close>

subsection \<open>\<open>strings.Split\<close> on a one-character separator and \<open>strconv.Atoi\<close>\<close>

fun strings_Split :: "string \<Rightarrow> char \<Rightarrow> string list" where
  "strings_Split [] sep = [[]]"
| "strings_Split (c # cs) sep =
    (if c = sep then [] # strings_Split cs sep
     else (case strings_Split cs sep of
             p # ps \<Rightarrow> (c # p) # ps
           | [] \<Rightarrow> [[c]]))"

definition is_digit :: "char \<Rightarrow> bool" where
  "is_digit c = (c \<in> set ''0123456789'')"

definition digit_val :: "char \<Rightarrow> int" where
  "digit_val c = int (of_char c) - 48"

definition digits_val :: "string \<Rightarrow> int" where
  "digits_val ds = foldl (\<lambda>acc c. 10 * acc + digit_val c) 0 ds"

text \<open>
  \<open>strconv.Atoi\<close> for a 64-bit \<open>int\<close>: an optional sign, then one or more decimal
  digits; a syntax error otherwise, a range error outside 64 bits. The error's text
  quotes the input with \<open>strconv.Quote\<close>.
\<close>

definition strconv_Atoi :: "env \<Rightarrow> string \<Rightarrow> string + int" where
  "strconv_Atoi env s =
    (let (neg, ds) = (case s of
                        c # r \<Rightarrow> (if c = CHR ''+'' then (False, r)
                                   else if c = CHR ''-'' then (True, r) else (False, s))
                      | [] \<Rightarrow> (False, s))
     in if ds = [] \<or> \<not> list_all is_digit ds
        then Inl (''strconv.Atoi: parsing '' @ strconv_Quote env s @ '': invalid syntax'')
        else (let v = (if neg then - digits_val ds else digits_val ds)
              in if v < - (2 ^ 63) \<or> 2 ^ 63 \<le> v
                 then Inl (''strconv.Atoi: parsing '' @ strconv_Quote env s @ '': value out of range'')
                 else Inr v))"

subsection \<open>Dates\<close>

text \<open>
  \<open>time.Date(year, month, day, 0, 0, 0, 0, time.UTC)\<close> as the number of the day it
  falls on, counted from 0001-01-01: the month is normalised into the year, the days
  before the year and before the month are counted, and the day of the month is added
  as it is, so that a day outside the month moves into the neighbouring months.
\<close>

definition isLeap :: "int \<Rightarrow> bool" where
  "isLeap year = (year mod 4 = 0 \<and> (year mod 100 \<noteq> 0 \<or> year mod 400 = 0))"

definition daysBefore :: "int list" where
  "daysBefore = [0, 31, 59, 90, 120, 151, 181, 212, 243, 273, 304, 334, 365]"

definition days_before_year :: "int \<Rightarrow> int" where
  "days_before_year year =
     365 * (year - 1) + (year - 1) div 4 - (year - 1) div 100 + (year - 1) div 400"

definition time_Date :: "int \<Rightarrow> int \<Rightarrow> int \<Rightarrow> int" where
  "time_Date year month day =
    (let m = month - 1;
         year = year + m div 12;
         m = m mod 12;
         d = days_before_year year + daysBefore ! nat m;
         d = (if isLeap year \<and> 2 \<le> m then d + 1 else d)
     in d + (day - 1))"

text \<open>Go's \<open>int\<close> arithmetic, 64 bits wide, wraps around.\<close>

definition int64 :: "int \<Rightarrow> int" where
  "int64 x = (x + 2 ^ 63) mod 2 ^ 64 - 2 ^ 63"

text \<open>
  \<open>t.Sub(u)\<close> for two instants at midnight UTC, given as day numbers: the difference
  as a \<open>Duration\<close> in nanoseconds, which saturates at the ends of 64 bits.
\<close>

definition nanoseconds_per_day :: int where
  "nanoseconds_per_day = 24 * 3600 * 1000000000"

definition time_Sub :: "int \<Rightarrow> int \<Rightarrow> int" where
  "time_Sub t u =
    (let d = (t - u) * nanoseconds_per_day
     in if 2 ^ 63 \<le> d then 2 ^ 63 - 1 else if d < - (2 ^ 63) then - (2 ^ 63) else d)"

text \<open>
  \<open>int(d.Hours() / 24)\<close>: the conversion to \<open>int\<close> truncates towards zero. The
  quotient is computed in \<open>float64\<close>; on the durations \<open>time_Sub\<close> gives (whole days,
  or one of the two saturated values, whose quotient is 0.99 away from the next
  integer) the truncated quotient of the integers is the same number.
\<close>

definition days_of_Duration :: "int \<Rightarrow> int" where
  "days_of_Duration d = sgn d * (\<bar>d\<bar> div nanoseconds_per_day)"

subsection \<open>LogDirectoryCleanup\<close>

text \<open>
  \<open>ioutil.ReadDir(dirname)\<close>: the entries of the directory sorted by file name, which
  is the order of Go's \<open><\<close> on strings (byte by byte, a proper prefix first); an error
  of opening or reading the directory is passed on.
\<close>

definition ioutil_ReadDir :: "env \<Rightarrow> string \<Rightarrow> string + fileInfo list" where
  "ioutil_ReadDir env dirname =
    (case file_Readdir env dirname of
       Inl err \<Rightarrow> Inl err
     | Inr list \<Rightarrow> Inr (sort_key fi_Name list))"

text \<open>Indexing a slice panics out of range.\<close>

definition index :: "'a list \<Rightarrow> nat \<Rightarrow> ('a \<Rightarrow> world \<Rightarrow> 'b res \<times> world) \<Rightarrow> world \<Rightarrow> 'b res \<times> world" where
  "index xs i k w =
    (if i < length xs then k (xs ! i) w
     else (Panic (ARuntimeError ''index out of range''), w))"

text \<open>One round of the loop over the directory's entries.\<close>

definition cleanup_entry :: "env \<Rightarrow> string \<Rightarrow> int \<Rightarrow> fileInfo \<Rightarrow> world \<Rightarrow> unit res \<times> world" where
  "cleanup_entry env baseFilePath compareDate fileInfo w =
    (if fi_IsDir fileInfo = False then (Return (), w)
     else
      (let parts = strings_Split (fi_Name fileInfo) (CHR ''-'') in
       index parts 0 (\<lambda>part0 w.
       case strconv_Atoi env part0 of
         Inl err \<Rightarrow> Errorf env (Some err) ''main'' ''LogDirectoryCleanup''
                      ''Attempting To Convert Directory [%s]'' [AString (fi_Name fileInfo)] w
       | Inr year \<Rightarrow>
       index parts 1 (\<lambda>part1 w.
       case strconv_Atoi env part1 of
         Inl err \<Rightarrow> Errorf env (Some err) ''main'' ''LogDirectoryCleanup''
                      ''Attempting To Convert Directory [%s]'' [AString (fi_Name fileInfo)] w
       | Inr month \<Rightarrow>
       index parts 2 (\<lambda>part2 w.
       case strconv_Atoi env part2 of
         Inl err \<Rightarrow> Errorf env (Some err) ''main'' ''LogDirectoryCleanup''
                      ''Attempting To Convert Directory [%s]'' [AString (fi_Name fileInfo)] w
       | Inr day \<Rightarrow>
        (let fullFileName = baseFilePath @ ''/'' @ fi_Name fileInfo;
             directoryDate = time_Date year month day;
             daysOld = days_of_Duration (time_Sub compareDate directoryDate)
         in and_then (Trace env ''main'' ''LogDirectoryCleanup''
                        ''Checking Directory[%s] DaysOld[%d]'' [AString fullFileName, AInt daysOld] w)
            (\<lambda>_ w.
              if 0 \<le> daysOld then
                and_then (Trace env ''main'' ''LogDirectoryCleanup''
                            ''Removing Directory[%s]'' [AString fullFileName] w)
                (\<lambda>_ w.
                  (let w = w\<lparr>rm_calls := rm_calls w @ [fullFileName]\<rparr> in
                   case os_RemoveAll env fullFileName of
                     Some err \<Rightarrow> Trace env ''main'' ''LogDirectoryCleanup''
                                   ''Attempting To Remove Directory [%s]'' [AString fullFileName] w
                   | None \<Rightarrow> Trace env ''main'' ''LogDirectoryCleanup''
                               ''Directory Removed [%s]'' [AString fullFileName] w))
              else (Return (), w)))) w) w) w))"

fun cleanup_loop :: "env \<Rightarrow> string \<Rightarrow> int \<Rightarrow> fileInfo list \<Rightarrow> world \<Rightarrow> unit res \<times> world" where
  "cleanup_loop env baseFilePath compareDate [] w = (Return (), w)"
| "cleanup_loop env baseFilePath compareDate (fileInfo # fileInfos) w =
    and_then (cleanup_entry env baseFilePath compareDate fileInfo w)
      (\<lambda>_ w. cleanup_loop env baseFilePath compareDate fileInfos w)"

definition LogDirectoryCleanup_body :: "env \<Rightarrow> string \<Rightarrow> int \<Rightarrow> world \<Rightarrow> unit res \<times> world" where
  "LogDirectoryCleanup_body env baseFilePath daysToKeep w =
    and_then (Startedf env ''main'' ''LogDirectoryCleanup'' ''BaseFilePath[%s] DaysToKeep[%d]''
                [AString baseFilePath, AInt daysToKeep] w)
    (\<lambda>_ w.
      case ioutil_ReadDir env baseFilePath of
        Inl err \<Rightarrow> CompletedError (Some err) ''main'' ''LogDirectoryCleanup'' w
      | Inr fileInfos \<Rightarrow>
         (let (year, month, day) = time_Now env;
              compareDate = time_Date year month (int64 (day - daysToKeep))
          in and_then (Trace env ''main'' ''LogDirectoryCleanup'' ''CompareDate[%v]''
                         [ATime compareDate] w)
             (\<lambda>_ w. and_then (cleanup_loop env baseFilePath compareDate fileInfos w)
             (\<lambda>_ w. Completed ''main'' ''LogDirectoryCleanup'' w))))"

text \<open>The body under its deferred \<open>CatchPanic(nil, "LogDirectoryCleanup")\<close>.\<close>

definition LogDirectoryCleanup :: "nat \<Rightarrow> env \<Rightarrow> string \<Rightarrow> int \<Rightarrow> world \<Rightarrow> (unit res \<times> world) option" where
  "LogDirectoryCleanup fuel env baseFilePath daysToKeep w =
    (case LogDirectoryCleanup_body env baseFilePath daysToKeep w of
       (Exit s, w1) \<Rightarrow> Some (Exit s, w1)
     | (body, w1) \<Rightarrow>
        (case CatchPanic fuel env None ''LogDirectoryCleanup'' (recovered body) w1 of
           None \<Rightarrow> None
         | Some (d, _, w2) \<Rightarrow> Some (d, w2)))"

section \<open>Start, StartFile and Stop\<close>

definition Start :: "int32 \<Rightarrow> world \<Rightarrow> world" where
  "Start logLevel w = turnOnLogging logLevel None w"

definition strings_TrimRight :: "string \<Rightarrow> char \<Rightarrow> string" where
  "strings_TrimRight s c = rev (dropWhile (\<lambda>x. x = c) (rev s))"

text \<open>
  \<open>StartFile\<close>: the directory of the day and the file of the moment are made (the
  process ends if either fails), logging is turned on with the new file, and the
  sweep runs. The two readings of the clock are one in the model.
\<close>

definition StartFile :: "nat \<Rightarrow> env \<Rightarrow> int32 \<Rightarrow> string \<Rightarrow> int \<Rightarrow> world \<Rightarrow> (unit res \<times> world) option" where
  "StartFile fuel env logLevel baseFilePath daysToKeep w =
    (let baseFilePath = strings_TrimRight baseFilePath (CHR ''/'');
         dateDirectory = time_Format env ''2006-01-02'';
         dateFile = time_Format env ''2006-01-02T15-04-05'';
         filePath = baseFilePath @ ''/'' @ dateDirectory @ ''/'';
         fileName = map (\<lambda>c. if c = CHR '' '' then CHR ''-'' else c) (dateFile @ ''.txt'')
     in case os_MkdirAll env filePath of
          Some err \<Rightarrow>
            Some (Exit (''main : Start : Failed to Create log directory : '' @ filePath @ '' : ''
                          @ err @ ''\<newline>''), w)
        | None \<Rightarrow>
           (case os_Create env (filePath @ fileName) of
              Inl err \<Rightarrow>
                Some (Exit (''main : Start : Failed to Create log file : '' @ fileName @ '' : ''
                              @ err @ ''\<newline>''), w)
            | Inr logf \<Rightarrow>
               (let w = w\<lparr>open_files := open_files w @ [logf]\<rparr>;
                    w = turnOnLogging logLevel (Some (FileHandle logf)) w
                in LogDirectoryCleanup fuel env baseFilePath daysToKeep w)))"

definition Stop :: "env \<Rightarrow> world \<Rightarrow> error res \<times> world" where
  "Stop env w =
    and_then (Started ''main'' ''Stop'' w) (\<lambda>_ w.
    and_then
      (case tl_LogFile (logger w) of
         Some f \<Rightarrow>
           and_then (Trace env ''main'' ''Stop'' ''Closing File'' [] w) (\<lambda>_ w.
             (Return (file_Close env f), w\<lparr>open_files := removeAll f (open_files w)\<rparr>))
       | None \<Rightarrow> (Return None, w))
      (\<lambda>err w.
    and_then (Completed ''main'' ''Stop'' w) (\<lambda>_ w.
    (Return err, w))))"

definition LogLevel :: "world \<Rightarrow> int32" where
  "LogLevel w = tl_LogLevel (logger w)"

section \<open>Notions of the specification and of the proofs\<close>

text \<open>A logger that was started and whose mutex is free.\<close>

definition ready :: "traceLog \<Rightarrow> bool" where
  "ready t = (tl_Trace t \<noteq> None \<and> tl_Info t \<noteq> None \<and> tl_Warning t \<noteq> None \<and> tl_Error t \<noteq> None
     \<and> \<not> tl_Serialize t)"

text \<open>
  The serialized writer of the specification: acquire the lock, write the line to the
  logger chosen from the singleton, release the lock.
\<close>

definition emit :: "(traceLog \<Rightarrow> log_Logger option) \<Rightarrow> int \<Rightarrow> string \<Rightarrow> world \<Rightarrow> unit res \<times> world" where
  "emit sel calldepth line w =
    and_then (Lock w) (\<lambda>_ w.
    and_then (log_Output (sel (logger w)) calldepth line w) (\<lambda>_ w.
    Unlock w))"

text \<open>The same, followed by the alert with the line as its message.\<close>

definition emit_and_alert ::
  "nat \<Rightarrow> env \<Rightarrow> (traceLog \<Rightarrow> log_Logger option) \<Rightarrow> int \<Rightarrow> string \<Rightarrow> string \<Rightarrow> world
    \<Rightarrow> (unit res \<times> world) option" where
  "emit_and_alert fuel env sel calldepth line subject w =
    (case emit sel calldepth line w of
       (Return _, w1) \<Rightarrow>
         map_option (\<lambda>(r, w2). (and_then (r, w2) (\<lambda>_ w. (Return (), w))))
           (SendEmailException fuel env subject line [] w1)
     | (Panic p, w1) \<Rightarrow> Some (Panic p, w1)
     | (Exit s, w1) \<Rightarrow> Some (Exit s, w1))"

text \<open>
  The line format of the specification:
  \<open><title> : <function> : <Tag> : <message>[ : <error>]\<close> and a newline, the tag one of
  seven. \<open>matches_template\<close> decides whether a line has this form for some tag, message
  and optional error (\<open>matches_template_iff\<close> below).
\<close>

definition Tags :: "string list" where
  "Tags = [''Started'', ''Completed'', ''Info'', ''ERROR'', ''ALERT'',
           ''Completed : ERROR'', ''Completed : ALERT'']"

definition template_line :: "string \<Rightarrow> string \<Rightarrow> string \<Rightarrow> string \<Rightarrow> string option \<Rightarrow> string" where
  "template_line title function tag message err =
     title @ '' : '' @ function @ '' : '' @ tag @ '' : '' @ message
       @ (case err of None \<Rightarrow> [] | Some e \<Rightarrow> '' : '' @ e) @ ''\<newline>''"

definition matches_template :: "string \<Rightarrow> string \<Rightarrow> string \<Rightarrow> bool" where
  "matches_template title function line =
     (list_ex (\<lambda>tag. prefix (title @ '' : '' @ function @ '' : '' @ tag @ '' : '') line) Tags
      \<and> line \<noteq> [] \<and> last line = CHR ''\<newline>'')"

text \<open>The line that carries a tag and nothing after it.\<close>

definition bare_line :: "string \<Rightarrow> string \<Rightarrow> string \<Rightarrow> string" where
  "bare_line title function tag = title @ '' : '' @ function @ '' : '' @ tag @ ''\<newline>''"

text \<open>
  What a call may do that only touches the mail path: the logger, the writes, the
  removals and the open files stay, template executions and mails are appended, each
  marked with the state the mutex had at the start.
\<close>

definition mail_only :: "world \<Rightarrow> world \<Rightarrow> bool" where
  "mail_only w w' =
    (logger w' = logger w \<and> writes w' = writes w \<and> rm_calls w' = rm_calls w
     \<and> open_files w' = open_files w
     \<and> take (length (renders w)) (renders w') = renders w
     \<and> take (length (mails w)) (mails w') = mails w
     \<and> list_all (\<lambda>e. fst e = tl_Serialize (logger w)) (drop (length (renders w)) (renders w'))
     \<and> list_all (\<lambda>e. fst e = tl_Serialize (logger w)) (drop (length (mails w)) (mails w')))"

text \<open>The secondary alert of \<open>CatchPanic\<close>, which carries the text of the stack.\<close>

definition secondary_alert :: "nat \<Rightarrow> env \<Rightarrow> string \<Rightarrow> any \<Rightarrow> world \<Rightarrow> (error res \<times> world) option" where
  "secondary_alert n env functionName r w =
    SendEmailException n env systemAlertSubject ''%s : PANIC Defered [%s] : Stack Trace : %s''
      [AString functionName, r, AString (runtime_Stack env)] w"


subsection \<open>The sweep, entry by entry\<close>

text \<open>
  What the sweep may do on its way: lines are written and directories removed (\<open>rms\<close>
  are the paths given to \<open>os.RemoveAll\<close>, in order); everything else stays.
\<close>

definition swept :: "world \<Rightarrow> world \<Rightarrow> string list \<Rightarrow> bool" where
  "swept w w' rms =
    (logger w' = logger w \<and> renders w' = renders w \<and> mails w' = mails w
     \<and> open_files w' = open_files w \<and> rm_calls w' = rm_calls w @ rms
     \<and> (\<exists>evs. writes w' = writes w @ evs))"

text \<open>A string that \<open>strconv.Atoi\<close> accepts.\<close>

definition numeric :: "env \<Rightarrow> string \<Rightarrow> bool" where
  "numeric env s = (case strconv_Atoi env s of Inl err \<Rightarrow> False | Inr v \<Rightarrow> True)"

text \<open>
  A directory entry on which the loop's body panics: its name has one or two parts
  only, all numeric, so that the index of the next part is out of range.
\<close>

definition too_short :: "env \<Rightarrow> fileInfo \<Rightarrow> bool" where
  "too_short env fi =
    (fi_IsDir fi \<and>
     (let parts = strings_Split (fi_Name fi) (CHR ''-'') in
        (length parts = 1 \<and> numeric env (parts ! 0))
        \<or> (length parts = 2 \<and> numeric env (parts ! 0) \<and> numeric env (parts ! 1))))"

text \<open>
  The path that one round of the loop gives to \<open>os.RemoveAll\<close>, if any: the entry
  is a directory, the first three parts of its name are numbers, and \<open>daysOld\<close> is not
  negative.
\<close>

definition removal :: "env \<Rightarrow> string \<Rightarrow> int \<Rightarrow> fileInfo \<Rightarrow> string list" where
  "removal env baseFilePath compareDate fi =
    (let parts = strings_Split (fi_Name fi) (CHR ''-'') in
     if fi_IsDir fi \<and> 3 \<le> length parts then
       (case (strconv_Atoi env (parts ! 0), strconv_Atoi env (parts ! 1), strconv_Atoi env (parts ! 2)) of
          (Inr year, Inr month, Inr day) \<Rightarrow>
            (if 0 \<le> days_of_Duration (time_Sub compareDate (time_Date year month day))
             then [baseFilePath @ ''/'' @ fi_Name fi] else [])
        | _ \<Rightarrow> [])
     else [])"

text \<open>
  A name of the form YYYY-MM-DD (four, two and two decimal digits), and the day it
  names: the day number of that year, month and day of the month.
\<close>

definition date_shaped :: "string \<Rightarrow> bool" where
  "date_shaped name =
    (length name = 10
     \<and> list_all is_digit (take 4 name) \<and> name ! 4 = CHR ''-''
     \<and> list_all is_digit (take 2 (drop 5 name)) \<and> name ! 7 = CHR ''-''
     \<and> list_all is_digit (drop 8 name))"

definition name_date :: "string \<Rightarrow> int" where
  "name_date name =
     time_Date (digits_val (take 4 name)) (digits_val (take 2 (drop 5 name)))
       (digits_val (drop 8 name))"

subsection \<open>A concrete environment\<close>

text \<open>
  An environment for the worked examples: formatting gives back the format string,
  the date is 2024-06-10, the file system and the mail transport never fail, and the
  base directory is empty.
\<close>

definition env0 :: env where
  "env0 =
    \<lparr>fmt_Sprintf = (\<lambda>format a. format),
     strconv_Quote = (\<lambda>s. [CHR 0x22] @ s @ [CHR 0x22]),
     time_Now = (2024, 6, 10),
     time_Format = (\<lambda>layout. if layout = ''2006-01-02'' then ''2024-06-10''
                             else ''2024-06-10T12-00-00''),
     os_MkdirAll = (\<lambda>path. None),
     os_Create = (\<lambda>path. Inr 3),
     file_Readdir = (\<lambda>path. Inr []),
     os_RemoveAll = (\<lambda>path. None),
     file_Close = (\<lambda>f. None),
     runtime_Stack = ''goroutine 1 [running]:'',
     template_Execute = (\<lambda>n. Returns None),
     smtp_SendMail = (\<lambda>n m. Returns None)\<rparr>"

text \<open>
  The same with given entries in the base directory (\<open>ioutil.ReadDir\<close> sorts them by
  name before the sweep sees them); with a mail transport that panics on its first
  hand-off only; with one that panics on every hand-off.
\<close>

definition env_dirs :: "fileInfo list \<Rightarrow> env" where
  "env_dirs fis = env0\<lparr>file_Readdir := (\<lambda>path. Inr fis)\<rparr>"

definition env_flaky :: env where
  "env_flaky = env0\<lparr>smtp_SendMail :=
     (\<lambda>n m. if n = 0 then Panics (AString ''connection reset'') else Returns None)\<rparr>"

definition env_broken :: env where
  "env_broken = env0\<lparr>smtp_SendMail := (\<lambda>n m. Panics (AString ''connection reset''))\<rparr>"

text \<open>The same with a file whose \<open>Close\<close> fails.\<close>

definition env_close_fails :: env where
  "env_close_fails = env0\<lparr>file_Close := (\<lambda>f. Some ''close failed'')\<rparr>"

text \<open>An entry of the listing that is a directory.\<close>

definition dir :: "string \<Rightarrow> fileInfo" where
  "dir name = \<lparr>fi_Name = name, fi_IsDir = True\<rparr>"

text \<open>A started logger (every severity on the console) with an email configuration.\<close>

definition world_mail :: world where
  "world_mail = ConfigureEmail ''smtp.example.com'' 25 ''me@example.com'' ''secret''
     [''ops@example.com''] (Start LEVEL_TRACE world0)"

section \<open>Callers that run at the same time\<close>

text \<open>
  Every logging call of the package is, in its source, the sequence
  \<open>logger.Serialize.Lock()\<close>, \<open>Output\<close> on a logger of the package variable,
  \<open>logger.Serialize.Unlock()\<close>, which the alert calls follow with \<open>SendEmailException\<close>
  (\<open>emit\<close> and \<open>emit_and_alert\<close> above; lemma \<open>calls_emit\<close> derives this from the
  definition of each call). When several callers run at the same time, these steps of
  theirs are interleaved; the package variable is the same for all of them, and none of
  them starts the logger anew.

  The streams behind a sink: \<open>io.MultiWriter\<close> writes to each of its writers in turn,
  \<open>ioutil.Discard\<close> to none. The bytes of one write of a logger, in the order in which
  the streams get them.
\<close>

fun streams :: "writer \<Rightarrow> writer list" where
  "streams Discard = []"
| "streams Stdout = [Stdout]"
| "streams Stderr = [Stderr]"
| "streams (FileHandle f) = [FileHandle f]"
| "streams (MultiWriter ws) = concat (map streams ws)"

definition event_bytes :: "write_event \<Rightarrow> (writer \<times> char) list" where
  "event_bytes e =
     concat (map (\<lambda>g. map (Pair g) (we_prefix e @ we_line e)) (streams (we_out e)))"

text \<open>
  A caller is one call in progress: the logger the call selects from the package
  variable, the line it has composed, and whether it is an alert call. It is about to
  lock, or inside \<open>Output\<close> with so many bytes passed on, or about to unlock, or inside
  \<open>SendEmailException\<close>, or it has returned, or \<open>Output\<close> has panicked on a nil logger
  (the mutex stays locked: \<open>Unlock\<close> is not deferred).
\<close>

type_synonym caller = nat

record call =
  c_sel :: "traceLog \<Rightarrow> log_Logger option"
  c_line :: string
  c_alert :: bool

datatype pc = Calling | Writing nat | Unlocking | Mailing | Returned | Panicked

text \<open>
  The state that the callers share: who has locked the mutex, if it is locked; where
  each caller is; the bytes that reached the streams, in order, each with its writer,
  its stream and whether the writer held the mutex; the steps of the mail path
  (template executions, hand-offs to the mail transport), each with its caller and
  whether the caller held the mutex; and whether the runtime has ended the process.
\<close>

record sys =
  mutex :: "caller option"
  pcs :: "caller \<Rightarrow> pc"
  stream :: "(caller \<times> writer \<times> char \<times> bool) list"
  mail_steps :: "(caller \<times> bool) list"
  fatal :: bool

definition sys0 :: sys where
  "sys0 = \<lparr>mutex = None, pcs = (\<lambda>t. Calling), stream = [], mail_steps = [], fatal = False\<rparr>"

text \<open>The bytes that the call of a caller passes on: those of the write of its logger.\<close>

definition call_bytes :: "traceLog \<Rightarrow> call \<Rightarrow> (writer \<times> char) list" where
  "call_bytes lgr c =
    (case c_sel c lgr of
       None \<Rightarrow> []
     | Some lg \<Rightarrow> event_bytes (output_event lg (c_line c) True))"

text \<open>
  One step of the caller \<open>t\<close>. \<open>Lock\<close> is taken when the mutex is free, else the caller
  waits. \<open>Output\<close> panics on a nil logger; else it passes on the next byte, other
  callers being free to run before the one after it, and returns after the last.
  \<open>Unlock\<close> of an unlocked mutex is a fatal error; else it frees the mutex, whoever
  locked it. The mail path of an alert call is any number of steps (\<open>again\<close> tells
  whether one more is made), none of which touches the mutex.
\<close>

definition step :: "traceLog \<Rightarrow> (caller \<Rightarrow> call) \<Rightarrow> sys \<Rightarrow> caller \<times> bool \<Rightarrow> sys" where
  "step lgr calls s tm =
    (let t = fst tm; again = snd tm; c = calls t in
     if fatal s then s
     else
      (case pcs s t of
         Calling \<Rightarrow>
           (if mutex s = None then s\<lparr>mutex := Some t, pcs := (pcs s)(t := Writing 0)\<rparr> else s)
       | Writing k \<Rightarrow>
           (case c_sel c lgr of
              None \<Rightarrow> s\<lparr>pcs := (pcs s)(t := Panicked)\<rparr>
            | Some lg \<Rightarrow>
               (if k < length (call_bytes lgr c)
                then s\<lparr>stream := stream s @
                         [(t, fst (call_bytes lgr c ! k), snd (call_bytes lgr c ! k),
                           mutex s = Some t)],
                       pcs := (pcs s)(t := Writing (Suc k))\<rparr>
                else s\<lparr>pcs := (pcs s)(t := Unlocking)\<rparr>))
       | Unlocking \<Rightarrow>
           (if mutex s = None then s\<lparr>fatal := True\<rparr>
            else s\<lparr>mutex := None,
                   pcs := (pcs s)(t := (if c_alert c then Mailing else Returned))\<rparr>)
       | Mailing \<Rightarrow>
           (if again then s\<lparr>mail_steps := mail_steps s @ [(t, mutex s = Some t)]\<rparr>
            else s\<lparr>pcs := (pcs s)(t := Returned)\<rparr>)
       | Returned \<Rightarrow> s
       | Panicked \<Rightarrow> s))"

text \<open>A run of the callers: the steps of a schedule, from the start.\<close>

definition exec :: "traceLog \<Rightarrow> (caller \<Rightarrow> call) \<Rightarrow> (caller \<times> bool) list \<Rightarrow> sys" where
  "exec lgr calls schedule = foldl (step lgr calls) sys0 schedule"

text \<open>
  What one stream received, byte by byte with the caller that wrote it; the whole line
  of a caller (prefix and line, as its logger writes them); and a stream without a
  torn line: whole lines of callers, one after the other, and at the end at most the
  beginning of one line.
\<close>

definition at_stream :: "writer \<Rightarrow> (caller \<times> writer \<times> char \<times> bool) list \<Rightarrow> (caller \<times> char) list" where
  "at_stream g tr = map (\<lambda>e. (fst e, fst (snd (snd e)))) (filter (\<lambda>e. fst (snd e) = g) tr)"





text \<open>
  For the proofs: the points between \<open>Lock\<close> and \<open>Unlock\<close>; the bytes of a caller as the
  shared state records them when written with the mutex held; the bytes of the line
  that the holder of the mutex has passed on so far; and what every run keeps true.
\<close>

definition in_critical :: "pc \<Rightarrow> bool" where
  "in_critical p = (case p of Writing k \<Rightarrow> True | Unlocking \<Rightarrow> True | Panicked \<Rightarrow> True | _ \<Rightarrow> False)"

definition tagged :: "traceLog \<Rightarrow> (caller \<Rightarrow> call) \<Rightarrow> caller \<Rightarrow> (caller \<times> writer \<times> char \<times> bool) list" where
  "tagged lgr calls t = map (\<lambda>gb. (t, fst gb, snd gb, True)) (call_bytes lgr (calls t))"



section \<open>Properties of turnOnLogging\<close>

lemma level_bits:
  "(L AND LEVEL_TRACE \<noteq> 0) = bit L 0"
  "(L AND LEVEL_INFO \<noteq> 0) = bit L 1"
  "(L AND LEVEL_WARN \<noteq> 0) = bit L 2"
  "(L AND LEVEL_ERROR \<noteq> 0) = bit L 3"
  for L :: int32
  using bit_iff_and_push_bit_not_eq_0 [of L 0] bit_iff_and_push_bit_not_eq_0 [of L 1]
    bit_iff_and_push_bit_not_eq_0 [of L 2] bit_iff_and_push_bit_not_eq_0 [of L 3]
  by (simp_all add: LEVEL_TRACE_def LEVEL_INFO_def LEVEL_WARN_def LEVEL_ERROR_def)

lemma level_handles_cascade:
  "level_handles L = (cascade L SevTrace, cascade L SevInfo, cascade L SevWarn, cascade L SevError)"
  by (simp add: level_handles_def level_bits)

lemma cascade_cases:
  "cascade L s = Discard \<or> cascade L s = Stdout \<and> s \<noteq> SevError \<or> cascade L s = Stderr \<and> s = SevError"
  by (cases s) simp_all

lemma sink_turnOnLogging_None: "sink (logger (turnOnLogging L None w)) s = Some (cascade L s)"
  by (cases s) (simp_all add: sink_def turnOnLogging_def file_upgrade_def level_handles_cascade
      log_New_def zero_traceLog_def del: cascade.simps)

lemma sink_turnOnLogging_Some:
  "sink (logger (turnOnLogging L (Some fh) w)) s =
     Some (if cascade L s = Discard then Discard else MultiWriter [fh, cascade L s])"
  using cascade_cases [of L s]
  by (cases s) (auto simp add: sink_def turnOnLogging_def file_upgrade_def level_handles_cascade
      log_New_def zero_traceLog_def simp del: cascade.simps)

lemma cascade_LEVEL_WARN:
  "cascade LEVEL_WARN SevTrace = Discard" "cascade LEVEL_WARN SevInfo = Discard"
  "cascade LEVEL_WARN SevWarn = Stdout" "cascade LEVEL_WARN SevError = Stderr"
  by (simp_all add: LEVEL_WARN_def)

text \<open>
  C1. For every level mask \<open>L\<close> and each of the four severities, the sink that
  \<open>turnOnLogging(L, nil)\<close> resolves is the one the cascading rule prescribes.
\<close>

theorem C1_console_sinks_follow_cascade:
  "sink (logger (turnOnLogging L None w)) s = Some (cascade L s)"
  by (rule sink_turnOnLogging_None)

text \<open>At the mask WARN alone: trace and info are discarded, warn and error are active.\<close>

theorem C1_warn_only_witness:
  "sink (logger (turnOnLogging LEVEL_WARN None world0)) SevTrace = Some Discard
   \<and> sink (logger (turnOnLogging LEVEL_WARN None world0)) SevInfo = Some Discard
   \<and> sink (logger (turnOnLogging LEVEL_WARN None world0)) SevWarn = Some Stdout
   \<and> sink (logger (turnOnLogging LEVEL_WARN None world0)) SevError = Some Stderr"
  using C1_console_sinks_follow_cascade [of LEVEL_WARN world0 SevTrace]
    C1_console_sinks_follow_cascade [of LEVEL_WARN world0 SevInfo]
    C1_console_sinks_follow_cascade [of LEVEL_WARN world0 SevWarn]
    C1_console_sinks_follow_cascade [of LEVEL_WARN world0 SevError]
  by (simp only: cascade_LEVEL_WARN)

text \<open>
  C2. For every level mask \<open>L\<close>, every file handle \<open>fh\<close> and every severity, the sink
  resolved with the file includes the file exactly when the sink resolved without a
  file is not the discard sink; an active sink becomes the fan-out of the file and its
  console stream, a discarded one stays discarded.
\<close>

theorem C2_file_mirrors_console:
  "\<exists>c f. sink (logger (turnOnLogging L None w)) s = Some c
      \<and> sink (logger (turnOnLogging L (Some fh) w)) s = Some f
      \<and> (includes_file fh f \<longleftrightarrow> c \<noteq> Discard)
      \<and> f = (if c = Discard then Discard else MultiWriter [fh, c])"
  by (simp add: sink_turnOnLogging_None sink_turnOnLogging_Some del: cascade.simps)

theorem C2_file_witness:
  "sink (logger (turnOnLogging LEVEL_WARN (Some (FileHandle 3)) world0)) SevInfo = Some Discard
   \<and> sink (logger (turnOnLogging LEVEL_WARN (Some (FileHandle 3)) world0)) SevWarn
       = Some (MultiWriter [FileHandle 3, Stdout])"
  using C2_file_mirrors_console [of LEVEL_WARN world0 SevInfo "FileHandle 3"]
    C2_file_mirrors_console [of LEVEL_WARN world0 SevWarn "FileHandle 3"]
  by (auto simp add: sink_turnOnLogging_None cascade_LEVEL_WARN simp del: cascade.simps)

section \<open>Sequencing, the serialized writer and the mail path\<close>

lemma and_then_simps [simp]:
  "and_then (Return x, w) k = k x w"
  "and_then (Panic r, w) k = (Panic r, w)"
  "and_then (Exit s, w) k = (Exit s, w)"
  by (simp_all add: and_then_def)

lemmas eval_defs = Start_def turnOnLogging_def world0_def Lock_def Unlock_def log_Output_def output_event_def output_line_def
  zero_traceLog_def file_upgrade_def level_handles_def LEVEL_TRACE_def LEVEL_INFO_def
  LEVEL_WARN_def LEVEL_ERROR_def log_New_def ConfigureEmail_def env0_def std_flags_def

lemma matches_template_iff:
  "matches_template title function line \<longleftrightarrow>
     (\<exists>tag \<in> set Tags. \<exists>message err. line = template_line title function tag message err)"
proof
  assume "matches_template title function line"
  then obtain tag where tag: "tag \<in> set Tags"
    and pre: "prefix (title @ '' : '' @ function @ '' : '' @ tag @ '' : '') line"
    and ne: "line \<noteq> []" and nl: "last line = CHR ''\<newline>''"
    by (auto simp add: matches_template_def list_ex_iff)
  from pre obtain rest where line: "line = (title @ '' : '' @ function @ '' : '' @ tag @ '' : '') @ rest"
    by (auto simp add: prefix_def)
  have "rest \<noteq> []"
  proof
    assume "rest = []"
    with line nl show False by simp
  qed
  with line nl have "rest = butlast rest @ ''\<newline>''"
    by (metis append_butlast_last_id last_appendR)
  with line have "line = template_line title function tag (butlast rest) None"
    by (simp add: template_line_def)
  with tag show "\<exists>tag \<in> set Tags. \<exists>message err. line = template_line title function tag message err"
    by blast
next
  assume "\<exists>tag \<in> set Tags. \<exists>message err. line = template_line title function tag message err"
  then obtain tag message err where "tag \<in> set Tags"
    "line = template_line title function tag message err" by blast
  then show "matches_template title function line"
    unfolding matches_template_def list_ex_iff
    by (intro conjI bexI [of _ tag]) (simp_all add: template_line_def prefix_def)
qed

lemma emit_ready:
  assumes "sel (logger w) = Some lg" "\<not> tl_Serialize (logger w)"
   and sel: "\<And>t b. sel (t\<lparr>tl_Serialize := b\<rparr>) = sel t"
  shows "emit sel cd line w = (Return (), w\<lparr>writes := writes w @
     [\<lparr>we_locked = True, we_out = l_out lg, we_prefix = l_prefix lg,
             we_line = (if line \<noteq> [] \<and> last line = CHR ''\<newline>'' then line else line @ ''\<newline>'')\<rparr>]\<rparr>)"
  using assms
  by (simp add: emit_def Lock_def log_Output_def output_event_def output_line_def Unlock_def sel)

lemmas call_defs = Started_def Startedf_def Completed_def Completedf_def CompletedError_def
  CompletedErrorf_def Trace_def Info_def Warning_def Error_def Errorf_def
  Startedcd_def Startedfcd_def Completedcd_def Completedfcd_def CompletedErrorcd_def
  CompletedErrorfcd_def Tracecd_def Infocd_def Warningcd_def Errorcd_def Errorfcd_def

lemmas alert_defs = Alert_def CompletedAlert_def Alertcd_def CompletedAlertcd_def

lemma calls_emit:
  "Started title functionName w = emit tl_Trace 2 (bare_line title functionName ''Started'') w"
  "Startedf env title functionName format a w = emit tl_Trace 2 (template_line title functionName ''Started'' (fmt_Sprintf env format a) None) w"
  "Completed title functionName w = emit tl_Trace 2 (bare_line title functionName ''Completed'') w"
  "Completedf env title functionName format a w = emit tl_Trace 2 (template_line title functionName ''Completed'' (fmt_Sprintf env format a) None) w"
  "CompletedError err title functionName w = emit tl_Error 2 (template_line title functionName ''Completed : ERROR'' (fmt_s_error err) None) w"
  "CompletedErrorf env err title functionName format a w = emit tl_Error 2 (template_line title functionName ''Completed : ERROR'' (fmt_Sprintf env format a) (Some (fmt_s_error err))) w"
  "Trace env title functionName format a w = emit tl_Trace 2 (template_line title functionName ''Info'' (fmt_Sprintf env format a) None) w"
  "Info env title functionName format a w = emit tl_Info 2 (template_line title functionName ''Info'' (fmt_Sprintf env format a) None) w"
  "Warning env title functionName format a w = emit tl_Warning 2 (template_line title functionName ''Info'' (fmt_Sprintf env format a) None) w"
  "Error err title functionName w = emit tl_Error 2 (template_line title functionName ''ERROR'' (fmt_s_error err) None) w"
  "Errorf env err title functionName format a w = emit tl_Error 2 (template_line title functionName ''ERROR'' (fmt_Sprintf env format a) (Some (fmt_s_error err))) w"
  "Alert fuel env subject title functionName format a w = emit_and_alert fuel env tl_Error 2 (template_line title functionName ''ALERT'' (fmt_Sprintf env format a) None) subject w"
  "CompletedAlert fuel env subject title functionName format a w = emit_and_alert fuel env tl_Error 2 (template_line title functionName ''Completed : ALERT'' (fmt_Sprintf env format a) None) subject w"
  "Startedcd callDepth title functionName w = emit tl_Trace callDepth (bare_line title functionName ''Started'') w"
  "Startedfcd env callDepth title functionName format a w = emit tl_Trace callDepth (template_line title functionName ''Started'' (fmt_Sprintf env format a) None) w"
  "Completedcd callDepth title functionName w = emit tl_Trace callDepth (bare_line title functionName ''Completed'') w"
  "Completedfcd env callDepth title functionName format a w = emit tl_Trace callDepth (template_line title functionName ''Completed'' (fmt_Sprintf env format a) None) w"
  "CompletedErrorcd callDepth err title functionName w = emit tl_Error callDepth (template_line title functionName ''Completed : ERROR'' (fmt_s_error err) None) w"
  "CompletedErrorfcd env callDepth err title functionName format a w = emit tl_Error callDepth (template_line title functionName ''Completed : ERROR'' (fmt_Sprintf env format a) (Some (fmt_s_error err))) w"
  "Tracecd env callDepth title functionName format a w = emit tl_Trace callDepth (template_line title functionName ''Info'' (fmt_Sprintf env format a) None) w"
  "Infocd env callDepth title functionName format a w = emit tl_Info callDepth (template_line title functionName ''Info'' (fmt_Sprintf env format a) None) w"
  "Warningcd env callDepth title functionName format a w = emit tl_Warning callDepth (template_line title functionName ''Info'' (fmt_Sprintf env format a) None) w"
  "Errorcd callDepth err title functionName w = emit tl_Error callDepth (template_line title functionName ''ERROR'' (fmt_s_error err) None) w"
  "Errorfcd env callDepth err title functionName format a w = emit tl_Error callDepth (template_line title functionName ''ERROR'' (fmt_Sprintf env format a) (Some (fmt_s_error err))) w"
  "Alertcd fuel env callDepth subject title functionName format a w = emit_and_alert fuel env tl_Error callDepth (template_line title functionName ''ALERT'' (fmt_Sprintf env format a) None) subject w"
  "CompletedAlertcd fuel env callDepth subject title functionName format a w = emit_and_alert fuel env tl_Error callDepth (template_line title functionName ''Completed : ALERT'' (fmt_Sprintf env format a) None) subject w"
  by (simp_all add: call_defs alert_defs emit_def emit_and_alert_def template_line_def bare_line_def Let_def)

lemma mail_only_refl: "mail_only w w"
  by (simp add: mail_only_def)

lemma take_prefix_trans:
  assumes "take (length a) b = a" "take (length b) c = b"
  shows "take (length a) c = a"
proof -
  from assms(1) obtain x where b: "b = a @ x" by (metis append_take_drop_id)
  from assms(2) obtain y where c: "c = b @ y" by (metis append_take_drop_id)
  show ?thesis by (simp add: b c)
qed

lemma drop_prefix_trans:
  assumes "take (length a) b = a" "take (length b) c = b"
  shows "drop (length a) c = drop (length a) b @ drop (length b) c"
proof -
  from assms(1) obtain x where b: "b = a @ x" by (metis append_take_drop_id)
  from assms(2) obtain y where c: "c = b @ y" by (metis append_take_drop_id)
  show ?thesis by (simp add: b c)
qed

lemma mail_only_trans:
  assumes a: "mail_only w w1" and b: "mail_only w1 w2"
  shows "mail_only w w2"
proof -
  from a have l1: "logger w1 = logger w" and wr1: "writes w1 = writes w"
    and rm1: "rm_calls w1 = rm_calls w" and of1: "open_files w1 = open_files w"
    and tr1: "take (length (renders w)) (renders w1) = renders w"
    and tm1: "take (length (mails w)) (mails w1) = mails w"
    and ar1: "list_all (\<lambda>e. fst e = tl_Serialize (logger w)) (drop (length (renders w)) (renders w1))"
    and am1: "list_all (\<lambda>e. fst e = tl_Serialize (logger w)) (drop (length (mails w)) (mails w1))"
    by (simp_all add: mail_only_def)
  from b have l2: "logger w2 = logger w1" and wr2: "writes w2 = writes w1"
    and rm2: "rm_calls w2 = rm_calls w1" and of2: "open_files w2 = open_files w1"
    and tr2: "take (length (renders w1)) (renders w2) = renders w1"
    and tm2: "take (length (mails w1)) (mails w2) = mails w1"
    and ar2: "list_all (\<lambda>e. fst e = tl_Serialize (logger w1)) (drop (length (renders w1)) (renders w2))"
    and am2: "list_all (\<lambda>e. fst e = tl_Serialize (logger w1)) (drop (length (mails w1)) (mails w2))"
    by (simp_all add: mail_only_def)
  have r: "take (length (renders w)) (renders w2) = renders w"
    by (rule take_prefix_trans [OF tr1 tr2])
  have m: "take (length (mails w)) (mails w2) = mails w"
    by (rule take_prefix_trans [OF tm1 tm2])
  have ar: "list_all (\<lambda>e. fst e = tl_Serialize (logger w)) (drop (length (renders w)) (renders w2))"
    using ar1 ar2 by (simp add: drop_prefix_trans [OF tr1 tr2] l1)
  have am: "list_all (\<lambda>e. fst e = tl_Serialize (logger w)) (drop (length (mails w)) (mails w2))"
    using am1 am2 by (simp add: drop_prefix_trans [OF tm1 tm2] l1)
  show ?thesis
    unfolding mail_only_def
    using l1 l2 wr1 wr2 rm1 rm2 of1 of2 r m ar am by simp
qed

lemma body_nil:
  "tl_EmailConfiguration (logger w) = None \<Longrightarrow> SendEmailException_body env s m a w = (Return None, w)"
  by (simp add: SendEmailException_body_def)

lemma body_frame:
  "SendEmailException_body env s m a w = (r, w') \<Longrightarrow> mail_only w w' \<and> (\<forall>x. r \<noteq> Exit x)"
  by (auto simp add: SendEmailException_body_def mail_only_def Let_def
      split: option.splits outcome.splits)

lemma SendEmailException_frame:
  "SendEmailException n env s m a w = Some (r, w') \<Longrightarrow> mail_only w w' \<and> (\<exists>e. r = Return e)"
proof (induction n arbitrary: s m a w r w')
  case 0
  then show ?case by simp
next
  case (Suc n)
  obtain b w1 where body: "SendEmailException_body env s m a w = (b, w1)"
    by (cases "SendEmailException_body env s m a w")
  from body_frame [OF body] have f1: "mail_only w w1" and nx: "\<And>x. b \<noteq> Exit x" by auto
  show ?case
  proof (cases b)
    case (Return e)
    with Suc.prems body f1 show ?thesis by (auto simp add: recovered_def)
  next
    case (Panic p)
    with Suc.prems body obtain r2 w2 where
      sec: "SendEmailException n env systemAlertSubject ''%s : PANIC Defered [%s] : Stack Trace : %s''
              [AString ''SendEmailException'', p, AString (runtime_Stack env)] w1 = Some (r2, w2)"
      by (auto simp add: recovered_def split: option.splits)
    from Suc.IH [OF sec] obtain e2 where f2: "mail_only w1 w2" and r2: "r2 = Return e2" by blast
    from Suc.prems body Panic sec r2 have "w' = w2" "r = Return None"
      by (auto simp add: recovered_def)
    with f1 f2 show ?thesis by (auto intro: mail_only_trans)
  next
    case (Exit x)
    with nx [of x] show ?thesis by simp
  qed
qed

lemma CatchPanic_frame:
  assumes "CatchPanic n env slot f rec w = Some (r, slot', w')"
  shows "mail_only w w' \<and> r = Return ()
     \<and> slot' = (case rec of None \<Rightarrow> slot
                | Some p \<Rightarrow> map_option (\<lambda>_. Some (fmt_Sprintf env ''%v'' [p])) slot)"
proof (cases rec)
  case None
  with assms show ?thesis by (simp add: mail_only_refl)
next
  case (Some p)
  with assms obtain r2 w2 where
    sec: "SendEmailException n env systemAlertSubject ''%s : PANIC Defered [%s] : Stack Trace : %s''
              [AString f, p, AString (runtime_Stack env)] w = Some (r2, w2)"
    by (auto split: option.splits)
  from SendEmailException_frame [OF sec] obtain e2 where "mail_only w w2" "r2 = Return e2" by blast
  with assms Some sec show ?thesis by (auto split: option.splits)
qed

lemma SendEmailException_nil:
  "tl_EmailConfiguration (logger w) = None \<Longrightarrow>
     SendEmailException (Suc n) env subject message a w = Some (Return None, w)"
  by (simp add: body_nil recovered_def)

lemma CatchPanic_returns:
  assumes "SendEmailException n env systemAlertSubject ''%s : PANIC Defered [%s] : Stack Trace : %s''
              [AString f, p, AString (runtime_Stack env)] w = Some (r2, w2)"
  shows "CatchPanic n env slot f (Some p) w =
     Some (Return (), map_option (\<lambda>_. Some (fmt_Sprintf env ''%v'' [p])) slot, w2)"
proof -
  from SendEmailException_frame [OF assms] obtain e2 where "r2 = Return e2" by blast
  with assms show ?thesis by (cases slot) simp_all
qed

lemma SendEmailException_recovers:
  assumes "SendEmailException_body env subject message a w = (Panic p, w1)"
    and "SendEmailException n env systemAlertSubject ''%s : PANIC Defered [%s] : Stack Trace : %s''
              [AString ''SendEmailException'', p, AString (runtime_Stack env)] w1 = Some (r2, w2)"
  shows "SendEmailException (Suc n) env subject message a w = Some (Return None, w2)"
  using assms CatchPanic_returns [OF assms(2), of "Some None"]
  by (simp add: recovered_def)

lemma SendEmailException_diverges:
  assumes "\<And>k. template_Execute env k = Returns None" "\<And>k m. smtp_SendMail env k m = Panics p"
    "tl_EmailConfiguration (logger w) \<noteq> None"
  shows "SendEmailException n env s m a w = None"
  using assms(3)
proof (induction n arbitrary: s m a w)
  case 0
  then show ?case by simp
next
  case (Suc n)
  then obtain cfg where cfg: "tl_EmailConfiguration (logger w) = Some cfg" by auto
  obtain w1 where body: "SendEmailException_body env s m a w = (Panic p, w1)"
    by (simp add: SendEmailException_body_def cfg assms Let_def)
  from body_frame [OF body] have "logger w1 = logger w" by (simp add: mail_only_def)
  with Suc.prems have "tl_EmailConfiguration (logger w1) \<noteq> None" by simp
  from Suc.IH [OF this] have sec: "SendEmailException n env systemAlertSubject
      ''%s : PANIC Defered [%s] : Stack Trace : %s''
      [AString ''SendEmailException'', p, AString (runtime_Stack env)] w1 = None" .
  show ?case
    by (simp only: SendEmailException.simps body prod.case res.case recovered_def Let_def
        CatchPanic.simps sec option.case)
qed




section \<open>The format of the lines (C8)\<close>

text \<open>
  C8, as amended. Every logging call hands to the serialized writer, for the logger of
  its severity, the line \<open><title> : <function> : <Tag> : <message>[ : <error>]\<close> and a
  newline, with a tag among the seven (\<open>Trace\<close>, \<open>Info\<close> and \<open>Warning\<close> all use
  \<open>Info\<close>; \<open>Error\<close> and \<open>CompletedError\<close> have the error's text in the place of the
  message) - except \<open>Started\<close>, \<open>Completed\<close>, \<open>Startedcd\<close> and \<open>Completedcd\<close>, whose
  line is \<open><title> : <function> : <Tag>\<close> and a newline, with no message. The alert
  calls then alert with this line as the message.
\<close>

theorem C8_lines_follow_format:
  "(Started title functionName w = emit tl_Trace 2 (bare_line title functionName ''Started'') w)
   \<and> (Startedf env title functionName format a w = emit tl_Trace 2 (template_line title functionName ''Started'' (fmt_Sprintf env format a) None) w)
   \<and> (Completed title functionName w = emit tl_Trace 2 (bare_line title functionName ''Completed'') w)
   \<and> (Completedf env title functionName format a w = emit tl_Trace 2 (template_line title functionName ''Completed'' (fmt_Sprintf env format a) None) w)
   \<and> (CompletedError err title functionName w = emit tl_Error 2 (template_line title functionName ''Completed : ERROR'' (fmt_s_error err) None) w)
   \<and> (CompletedErrorf env err title functionName format a w = emit tl_Error 2 (template_line title functionName ''Completed : ERROR'' (fmt_Sprintf env format a) (Some (fmt_s_error err))) w)
   \<and> (Trace env title functionName format a w = emit tl_Trace 2 (template_line title functionName ''Info'' (fmt_Sprintf env format a) None) w)
   \<and> (Info env title functionName format a w = emit tl_Info 2 (template_line title functionName ''Info'' (fmt_Sprintf env format a) None) w)
   \<and> (Warning env title functionName format a w = emit tl_Warning 2 (template_line title functionName ''Info'' (fmt_Sprintf env format a) None) w)
   \<and> (Error err title functionName w = emit tl_Error 2 (template_line title functionName ''ERROR'' (fmt_s_error err) None) w)
   \<and> (Errorf env err title functionName format a w = emit tl_Error 2 (template_line title functionName ''ERROR'' (fmt_Sprintf env format a) (Some (fmt_s_error err))) w)
   \<and> (Alert fuel env subject title functionName format a w = emit_and_alert fuel env tl_Error 2 (template_line title functionName ''ALERT'' (fmt_Sprintf env format a) None) subject w)
   \<and> (CompletedAlert fuel env subject title functionName format a w = emit_and_alert fuel env tl_Error 2 (template_line title functionName ''Completed : ALERT'' (fmt_Sprintf env format a) None) subject w)
   \<and> (Startedcd callDepth title functionName w = emit tl_Trace callDepth (bare_line title functionName ''Started'') w)
   \<and> (Startedfcd env callDepth title functionName format a w = emit tl_Trace callDepth (template_line title functionName ''Started'' (fmt_Sprintf env format a) None) w)
   \<and> (Completedcd callDepth title functionName w = emit tl_Trace callDepth (bare_line title functionName ''Completed'') w)
   \<and> (Completedfcd env callDepth title functionName format a w = emit tl_Trace callDepth (template_line title functionName ''Completed'' (fmt_Sprintf env format a) None) w)
   \<and> (CompletedErrorcd callDepth err title functionName w = emit tl_Error callDepth (template_line title functionName ''Completed : ERROR'' (fmt_s_error err) None) w)
   \<and> (CompletedErrorfcd env callDepth err title functionName format a w = emit tl_Error callDepth (template_line title functionName ''Completed : ERROR'' (fmt_Sprintf env format a) (Some (fmt_s_error err))) w)
   \<and> (Tracecd env callDepth title functionName format a w = emit tl_Trace callDepth (template_line title functionName ''Info'' (fmt_Sprintf env format a) None) w)
   \<and> (Infocd env callDepth title functionName format a w = emit tl_Info callDepth (template_line title functionName ''Info'' (fmt_Sprintf env format a) None) w)
   \<and> (Warningcd env callDepth title functionName format a w = emit tl_Warning callDepth (template_line title functionName ''Info'' (fmt_Sprintf env format a) None) w)
   \<and> (Errorcd callDepth err title functionName w = emit tl_Error callDepth (template_line title functionName ''ERROR'' (fmt_s_error err) None) w)
   \<and> (Errorfcd env callDepth err title functionName format a w = emit tl_Error callDepth (template_line title functionName ''ERROR'' (fmt_Sprintf env format a) (Some (fmt_s_error err))) w)
   \<and> (Alertcd fuel env callDepth subject title functionName format a w = emit_and_alert fuel env tl_Error callDepth (template_line title functionName ''ALERT'' (fmt_Sprintf env format a) None) subject w)
   \<and> (CompletedAlertcd fuel env callDepth subject title functionName format a w = emit_and_alert fuel env tl_Error callDepth (template_line title functionName ''Completed : ALERT'' (fmt_Sprintf env format a) None) subject w)"
  by (simp only: calls_emit simp_thms)

text \<open>
  C8 as stated fails: on a started logger \<open>Started("main", "Example")\<close> writes the line
  \<open>main : Example : Started\<close>, which has no message and so does not match the format.
\<close>

theorem C8_Started_counterexample:
  "map we_line (writes (snd (Started ''main'' ''Example'' (Start LEVEL_TRACE world0))))
     = [''main : Example : Started\<newline>'']
   \<and> \<not> matches_template ''main'' ''Example'' ''main : Example : Started\<newline>''"
  by (simp add: Started_def eval_defs matches_template_def Tags_def)

section \<open>Interleaved callers\<close>




lemma in_critical_simps [simp]:
  "in_critical Calling = False" "in_critical (Writing k) = True" "in_critical Unlocking = True"
  "in_critical Mailing = False" "in_critical Returned = False" "in_critical Panicked = True"
  by (simp_all add: in_critical_def)







lemma at_stream_append [simp]: "at_stream g (xs @ ys) = at_stream g xs @ at_stream g ys"
  by (simp add: at_stream_def)

lemma at_stream_Nil [simp]: "at_stream g [] = []"
  by (simp add: at_stream_def)

lemma at_stream_concat: "at_stream g (concat xss) = concat (map (at_stream g) xss)"
  by (induction xss) simp_all












text \<open>
  A caller that runs alone, on a free mutex, writes to the streams the bytes of the
  very write that \<open>emit\<close> makes, in their order.
\<close>

lemma exec_replicate_Suc:
  "exec lgr calls (replicate (Suc n) x) = step lgr calls (exec lgr calls (replicate n x)) x"
proof -
  have "replicate (Suc n) x = replicate n x @ [x]" by (simp add: replicate_append_same)
  then show ?thesis by (simp only: exec_def foldl_append foldl.simps)
qed

lemma alone_writing:
  assumes sel: "c_sel (calls t) lgr = Some lg" and k: "k \<le> length (call_bytes lgr (calls t))"
  shows "mutex (exec lgr calls (replicate (Suc k) (t, again))) = Some t
     \<and> pcs (exec lgr calls (replicate (Suc k) (t, again))) t = Writing k
     \<and> stream (exec lgr calls (replicate (Suc k) (t, again))) = take k (tagged lgr calls t)
     \<and> \<not> fatal (exec lgr calls (replicate (Suc k) (t, again)))"
  using k
proof (induction k)
  case 0
  show ?case by (simp add: exec_def step_def sys0_def Let_def)
next
  case (Suc k)
  let ?s = "exec lgr calls (replicate (Suc k) (t, again))"
  from Suc.prems have lt: "k < length (call_bytes lgr (calls t))" by simp
  with Suc.IH have ih: "mutex ?s = Some t" "pcs ?s t = Writing k"
    "stream ?s = take k (tagged lgr calls t)" "\<not> fatal ?s" by simp_all
  from lt have l: "k < length (tagged lgr calls t)" by (simp add: tagged_def)
  from lt have nth: "tagged lgr calls t ! k
      = (t, fst (call_bytes lgr (calls t) ! k), snd (call_bytes lgr (calls t) ! k), True)"
    by (simp add: tagged_def)
  show ?case
    unfolding exec_replicate_Suc [of lgr calls "Suc k"]
    using ih lt sel by (simp add: step_def Let_def take_Suc_conv_app_nth [OF l] nth)
qed

lemma alone_returned:
  assumes sel: "c_sel (calls t) lgr = Some lg" and a: "\<not> c_alert (calls t)"
  shows "mutex (exec lgr calls (replicate (length (call_bytes lgr (calls t)) + 3) (t, again))) = None
     \<and> pcs (exec lgr calls (replicate (length (call_bytes lgr (calls t)) + 3) (t, again))) t = Returned
     \<and> stream (exec lgr calls (replicate (length (call_bytes lgr (calls t)) + 3) (t, again)))
         = tagged lgr calls t"
proof -
  let ?n = "length (call_bytes lgr (calls t))"
  let ?s1 = "exec lgr calls (replicate (Suc ?n) (t, again))"
  let ?s2 = "exec lgr calls (replicate (Suc (Suc ?n)) (t, again))"
  let ?s3 = "exec lgr calls (replicate (Suc (Suc (Suc ?n))) (t, again))"
  from alone_writing [where calls = calls and t = t and lgr = lgr and again = again, OF sel order_refl]
  have w: "mutex ?s1 = Some t" "pcs ?s1 t = Writing ?n" "stream ?s1 = tagged lgr calls t" "\<not> fatal ?s1"
    by (simp_all add: tagged_def)
  have u: "mutex ?s2 = Some t" "pcs ?s2 t = Unlocking" "stream ?s2 = tagged lgr calls t" "\<not> fatal ?s2"
    unfolding exec_replicate_Suc [of lgr calls "Suc ?n"]
    using w sel by (simp_all add: step_def Let_def)
  have r: "mutex ?s3 = None" "pcs ?s3 t = Returned" "stream ?s3 = tagged lgr calls t"
    unfolding exec_replicate_Suc [of lgr calls "Suc (Suc ?n)"]
    using u a by (simp_all add: step_def Let_def)
  have "?n + 3 = Suc (Suc (Suc ?n))" by simp
  with r show ?thesis by (simp only:)
qed

lemma caller_alone:
  assumes s: "sel (logger w) = Some lg" and f: "\<not> tl_Serialize (logger w)"
    and sel: "\<And>t b. sel (t\<lparr>tl_Serialize := b\<rparr>) = sel t"
  shows "\<exists>e n. emit sel cd line w = (Return (), w\<lparr>writes := writes w @ [e]\<rparr>)
     \<and> we_locked e
     \<and> stream (exec (logger w) (\<lambda>t. \<lparr>c_sel = sel, c_line = line, c_alert = False\<rparr>)
                 (replicate n (0, False)))
        = map (\<lambda>gb. (0, fst gb, snd gb, True)) (event_bytes e)"
proof -
  let ?e = "output_event lg line True"
  let ?calls = "\<lambda>t::caller. \<lparr>c_sel = sel, c_line = line, c_alert = False\<rparr>"
  have c: "c_sel (?calls 0) (logger w) = Some lg" using s by simp
  have a: "\<not> c_alert (?calls 0)" by simp
  have "emit sel cd line w = (Return (), w\<lparr>writes := writes w @ [?e]\<rparr>)"
    using emit_ready [OF s f sel, of cd line] by (simp add: output_event_def output_line_def)
  moreover have "we_locked ?e" by (simp add: output_event_def)
  moreover have "stream (exec (logger w) ?calls
        (replicate (length (call_bytes (logger w) (?calls 0)) + 3) (0, False)))
        = map (\<lambda>gb. (0, fst gb, snd gb, True)) (event_bytes ?e)"
    using alone_returned [where calls = ?calls and t = 0 and lgr = "logger w" and again = False,
        OF c a] s
    by (simp add: tagged_def call_bytes_def)
  ultimately show ?thesis by blast
qed

text \<open>
  A run of three callers on a started logger, the first an alert. The first caller
  locks, writes its line and unlocks, while the second waits; the second locks and
  writes three bytes of its line; the first makes a step of its mail path, the mutex
  being held by the second; the third waits.
\<close>

lemma interleaving_example:
  "let lgr = logger (Start LEVEL_TRACE world0);
       calls = (\<lambda>t. \<lparr>c_sel = tl_Error, c_line = (if t = 0 then ''a'' else ''b''), c_alert = (t = 0)\<rparr>);
       s = exec lgr calls
             ([(0, False), (1, False)] @ replicate 11 (0, False) @ replicate 4 (1, False)
              @ [(0, True), (2, False)])
   in mutex s = Some 1
    \<and> pcs s 0 = Mailing \<and> pcs s 1 = Writing 3 \<and> pcs s 2 = Calling
    \<and> map (\<lambda>e. (fst e, fst (snd e), fst (snd (snd e)))) (stream s)
        = map (\<lambda>b. (0, Stderr, b)) ''ERROR: a\<newline>'' @ map (\<lambda>b. (1, Stderr, b)) ''ERR''
    \<and> mail_steps s = [(0, False)]"
proof -
  define lgr where "lgr = logger (Start LEVEL_TRACE world0)"
  define calls :: "caller \<Rightarrow> call" where
    "calls = (\<lambda>t. \<lparr>c_sel = tl_Error, c_line = (if t = 0 then ''a'' else ''b''), c_alert = (t = 0)\<rparr>)"
  have lg: "tl_Error lgr = Some (log_New Stderr ''ERROR: '' std_flags)"
    by (simp add: lgr_def eval_defs)
  have sel: "c_sel (calls t) lgr = Some (log_New Stderr ''ERROR: '' std_flags)" for t
    by (simp add: calls_def lg)
  have al: "c_alert (calls 0)" by (simp add: calls_def)
  have b0: "call_bytes lgr (calls 0) = map (Pair Stderr) ''ERROR: a\<newline>''"
    by (simp add: call_bytes_def calls_def lg event_bytes_def output_event_def output_line_def
        log_New_def)
  have b1: "call_bytes lgr (calls (Suc 0)) = map (Pair Stderr) ''ERROR: b\<newline>''"
    by (simp add: call_bytes_def calls_def lg event_bytes_def output_event_def output_line_def
        log_New_def)
  let ?s = "exec lgr calls
             ([(0, False), (1, False)] @ replicate 11 (0, False) @ replicate 4 (1, False)
              @ [(0, True), (2, False)])"
  have "mutex ?s = Some 1
    \<and> pcs ?s 0 = Mailing \<and> pcs ?s 1 = Writing 3 \<and> pcs ?s 2 = Calling
    \<and> map (\<lambda>e. (fst e, fst (snd e), fst (snd (snd e)))) (stream ?s)
        = map (\<lambda>b. (0, Stderr, b)) ''ERROR: a\<newline>'' @ map (\<lambda>b. (1, Stderr, b)) ''ERR''
    \<and> mail_steps ?s = [(0, False)]"
    by (simp add: exec_def step_def sys0_def Let_def sel al b0 b1 eval_nat_numeral)
  then show ?thesis by (simp only: Let_def lgr_def calls_def)
qed

section \<open>What happens under the lock (C9)\<close>



section \<open>Alerts without a configuration (C6)\<close>

text \<open>
  C6. For every subject, message and arguments: if no email configuration is set,
  \<open>SendEmailException\<close> returns (with any fuel but none) the nil error and leaves the
  world as it was: no template execution, no mail hand-off.
\<close>

theorem C6_no_configuration_no_op:
  "tl_EmailConfiguration (logger w) = None \<Longrightarrow>
     SendEmailException (Suc n) env subject message a w = Some (Return None, w)"
  by (rule SendEmailException_nil)

theorem C6_witness:
  "tl_EmailConfiguration (logger (Start LEVEL_TRACE world0)) = None
   \<and> SendEmailException 1 env0 ''disk'' ''disk full'' [] (Start LEVEL_TRACE world0)
       = Some (Return None, Start LEVEL_TRACE world0)"
proof -
  have h: "tl_EmailConfiguration (logger (Start LEVEL_TRACE world0)) = None"
    by (simp add: eval_defs)
  from C6_no_configuration_no_op [OF h, of 0 env0 "''disk''" "''disk full''" "[]"] h
  show ?thesis by simp
qed

section \<open>Recovery of panics (C7)\<close>

lemma LogDirectoryCleanup_no_panic:
  "LogDirectoryCleanup n env base days w \<noteq> Some (Panic q, w')"
proof
  assume a: "LogDirectoryCleanup n env base days w = Some (Panic q, w')"
  obtain b w1 where body: "LogDirectoryCleanup_body env base days w = (b, w1)"
    by (cases "LogDirectoryCleanup_body env base days w")
  show False
  proof (cases b)
    case (Exit x)
    with a body show False by (simp add: LogDirectoryCleanup_def)
  next
    case (Return x)
    with a body show False by (simp add: LogDirectoryCleanup_def recovered_def)
  next
    case (Panic p)
    with a body obtain slot' where
      "CatchPanic n env None ''LogDirectoryCleanup'' (Some p) w1 = Some (Panic q, slot', w')"
      by (auto simp add: LogDirectoryCleanup_def recovered_def split: option.splits)
    from CatchPanic_frame [OF this] show False by simp
  qed
qed

lemma LogDirectoryCleanup_recovers:
  assumes "LogDirectoryCleanup_body env base days w = (Panic p, w1)"
    and "secondary_alert n env ''LogDirectoryCleanup'' p w1 = Some (r2, w2)"
  shows "LogDirectoryCleanup n env base days w = Some (Return (), w2)"
  using assms CatchPanic_returns [OF assms(2) [unfolded secondary_alert_def], of None]
  by (simp add: LogDirectoryCleanup_def recovered_def)

lemmas sweep_defs = LogDirectoryCleanup_body_def cleanup_entry_def index_def
  strconv_Atoi_def is_digit_def digits_val_def digit_val_def time_Date_def time_Sub_def
  days_of_Duration_def nanoseconds_per_day_def int64_def isLeap_def daysBefore_def
  days_before_year_def Startedf_def Trace_def Errorf_def Completed_def CompletedError_def
  env_dirs_def dir_def fmt_s_error_def ioutil_ReadDir_def

lemma flaky_body:
  "SendEmailException_body env_flaky ''disk'' ''disk full'' [] world_mail =
     (Panic (AString ''connection reset''),
      world_mail\<lparr>renders := [(False, \<lparr>p_From = ''me@example.com'', p_To = ''ops@example.com'',
                     p_Subject = ''disk'', p_Message = ''disk full''\<rparr>)],
                 mails := [(False, \<lparr>m_addr = ''%s:%d'', m_from = ''me@example.com'',
                     m_to = [''ops@example.com''],
                     m_msg = EmailScript \<lparr>p_From = ''me@example.com'', p_To = ''ops@example.com'',
                     p_Subject = ''disk'', p_Message = ''disk full''\<rparr>\<rparr>)]\<rparr>)"
  by (simp add: SendEmailException_body_def world_mail_def env_flaky_def eval_defs Let_def)

lemma short_name_body:
  "\<exists>w1. LogDirectoryCleanup_body (env_dirs [dir ''2024'']) ''/logs'' 5 (Start LEVEL_TRACE world0)
     = (Panic (ARuntimeError ''index out of range''), w1)
    \<and> tl_EmailConfiguration (logger w1) = None"
  by (simp add: sweep_defs eval_defs Let_def)

text \<open>
  Where the secondary alert comes to an end, a panic is recovered. No panic leaves
  \<open>SendEmailException\<close>, \<open>LogDirectoryCleanup\<close> or \<open>CatchPanic\<close>, with whatever fuel. When
  the body of \<open>SendEmailException\<close> or of \<open>LogDirectoryCleanup\<close> panics and the
  secondary alert (which carries the stack text) comes to an end, the deferred
  \<open>CatchPanic\<close> returns normally in the world the secondary alert left, has stored the
  panic value as an error in the slot that \<open>SendEmailException\<close> supplies
  (\<open>LogDirectoryCleanup\<close> supplies none), and the function itself returns normally.
\<close>

lemma panics_recovered:
  "SendEmailException n env subject message a w \<noteq> Some (Panic q, w')
   \<and> LogDirectoryCleanup n env baseFilePath daysToKeep w \<noteq> Some (Panic q, w')
   \<and> CatchPanic n env err functionName r w \<noteq> Some (Panic q, err', w')
   \<and> (SendEmailException_body env subject message a w = (Panic p, w1)
        \<and> secondary_alert n env ''SendEmailException'' p w1 = Some (r2, w2)
      \<longrightarrow> CatchPanic n env (Some None) ''SendEmailException'' (Some p) w1
            = Some (Return (), Some (Some (fmt_Sprintf env ''%v'' [p])), w2)
          \<and> SendEmailException (Suc n) env subject message a w = Some (Return None, w2))
   \<and> (LogDirectoryCleanup_body env baseFilePath daysToKeep w = (Panic p, w1)
        \<and> secondary_alert n env ''LogDirectoryCleanup'' p w1 = Some (r2, w2)
      \<longrightarrow> CatchPanic n env None ''LogDirectoryCleanup'' (Some p) w1 = Some (Return (), None, w2)
          \<and> LogDirectoryCleanup n env baseFilePath daysToKeep w = Some (Return (), w2))"
proof (intro conjI impI)
  show "SendEmailException n env subject message a w \<noteq> Some (Panic q, w')"
    using SendEmailException_frame [of n env subject message a w "Panic q" w'] by auto
  show "LogDirectoryCleanup n env baseFilePath daysToKeep w \<noteq> Some (Panic q, w')"
    by (rule LogDirectoryCleanup_no_panic)
  show "CatchPanic n env err functionName r w \<noteq> Some (Panic q, err', w')"
    using CatchPanic_frame [of n env err functionName r w "Panic q" err' w'] by auto
next
  assume h: "SendEmailException_body env subject message a w = (Panic p, w1)
        \<and> secondary_alert n env ''SendEmailException'' p w1 = Some (r2, w2)"
  then have s: "SendEmailException n env systemAlertSubject ''%s : PANIC Defered [%s] : Stack Trace : %s''
      [AString ''SendEmailException'', p, AString (runtime_Stack env)] w1 = Some (r2, w2)"
    by (simp add: secondary_alert_def)
  show "CatchPanic n env (Some None) ''SendEmailException'' (Some p) w1
            = Some (Return (), Some (Some (fmt_Sprintf env ''%v'' [p])), w2)"
    using CatchPanic_returns [OF s, of "Some None"] by simp
  show "SendEmailException (Suc n) env subject message a w = Some (Return None, w2)"
    using h by (intro SendEmailException_recovers [OF _ s]) simp
next
  assume h: "LogDirectoryCleanup_body env baseFilePath daysToKeep w = (Panic p, w1)
        \<and> secondary_alert n env ''LogDirectoryCleanup'' p w1 = Some (r2, w2)"
  then have s: "SendEmailException n env systemAlertSubject ''%s : PANIC Defered [%s] : Stack Trace : %s''
      [AString ''LogDirectoryCleanup'', p, AString (runtime_Stack env)] w1 = Some (r2, w2)"
    by (simp add: secondary_alert_def)
  show "CatchPanic n env None ''LogDirectoryCleanup'' (Some p) w1 = Some (Return (), None, w2)"
    using CatchPanic_returns [OF s, of None] by simp
  show "LogDirectoryCleanup n env baseFilePath daysToKeep w = Some (Return (), w2)"
    using h by (intro LogDirectoryCleanup_recovers [of _ _ _ _ p w1 n r2]) simp_all
qed

text \<open>
  Two runs: a mail transport that panics once (the secondary alert goes through, two
  mails were handed off), and a sweep over a directory named \<open>2024\<close>, whose missing
  second part makes the body panic (no configuration: the secondary alert is a no-op).
\<close>

lemma panics_recovered_examples:
  "(\<exists>w1 w2. SendEmailException_body env_flaky ''disk'' ''disk full'' [] world_mail
        = (Panic (AString ''connection reset''), w1)
      \<and> secondary_alert (Suc 0) env_flaky ''SendEmailException'' (AString ''connection reset'') w1
        = Some (Return None, w2)
      \<and> SendEmailException (Suc (Suc 0)) env_flaky ''disk'' ''disk full'' [] world_mail
        = Some (Return None, w2)
      \<and> length (mails w2) = 2)
   \<and> (\<exists>w1. LogDirectoryCleanup_body (env_dirs [dir ''2024'']) ''/logs'' 5 (Start LEVEL_TRACE world0)
        = (Panic (ARuntimeError ''index out of range''), w1)
      \<and> secondary_alert (Suc 0) (env_dirs [dir ''2024'']) ''LogDirectoryCleanup''
           (ARuntimeError ''index out of range'') w1 = Some (Return None, w1)
      \<and> LogDirectoryCleanup (Suc 0) (env_dirs [dir ''2024'']) ''/logs'' 5 (Start LEVEL_TRACE world0)
        = Some (Return (), w1))"
proof (intro conjI)
  obtain w1 where b: "SendEmailException_body env_flaky ''disk'' ''disk full'' [] world_mail
        = (Panic (AString ''connection reset''), w1)"
    and r: "length (renders w1) = 1" and m: "length (mails w1) = 1"
    and c: "tl_EmailConfiguration (logger w1) = tl_EmailConfiguration (logger world_mail)"
    using flaky_body by simp
  obtain w2 where s: "secondary_alert (Suc 0) env_flaky ''SendEmailException''
      (AString ''connection reset'') w1 = Some (Return None, w2)" and l: "length (mails w2) = 2"
  proof -
    from m have ne: "mails w1 \<noteq> []" by auto
    from m have l2: "length (mails w1 @ [x]) = 2" for x by simp
    show ?thesis
      using c ne l2 that
      by (simp add: secondary_alert_def SendEmailException_body_def world_mail_def env_flaky_def
          eval_defs Let_def recovered_def)
  qed
  from panics_recovered [where n = "Suc 0" and env = env_flaky and subject = "''disk''"
      and message = "''disk full''" and a = "[]" and w = world_mail
      and p = "AString ''connection reset''" and ?w1.0 = w1 and ?r2.0 = "Return None"
      and ?w2.0 = w2] b s
  have "SendEmailException (Suc (Suc 0)) env_flaky ''disk'' ''disk full'' [] world_mail
        = Some (Return None, w2)" by simp
  with b s l show "\<exists>w1 w2. SendEmailException_body env_flaky ''disk'' ''disk full'' [] world_mail
        = (Panic (AString ''connection reset''), w1)
      \<and> secondary_alert (Suc 0) env_flaky ''SendEmailException'' (AString ''connection reset'') w1
        = Some (Return None, w2)
      \<and> SendEmailException (Suc (Suc 0)) env_flaky ''disk'' ''disk full'' [] world_mail
        = Some (Return None, w2)
      \<and> length (mails w2) = 2" by blast
next
  let ?env = "env_dirs [dir ''2024'']"
  obtain w1 where b: "LogDirectoryCleanup_body ?env ''/logs'' 5 (Start LEVEL_TRACE world0)
     = (Panic (ARuntimeError ''index out of range''), w1)"
    and c: "tl_EmailConfiguration (logger w1) = None"
    using short_name_body by blast
  from c have s: "secondary_alert (Suc 0) ?env ''LogDirectoryCleanup''
           (ARuntimeError ''index out of range'') w1 = Some (Return None, w1)"
    unfolding secondary_alert_def by (rule SendEmailException_nil)
  from panics_recovered [where n = "Suc 0" and env = ?env and baseFilePath = "''/logs''"
      and daysToKeep = 5 and w = "Start LEVEL_TRACE world0"
      and p = "ARuntimeError ''index out of range''" and ?w1.0 = w1 and ?r2.0 = "Return None"
      and ?w2.0 = w1] b s
  have "LogDirectoryCleanup (Suc 0) ?env ''/logs'' 5 (Start LEVEL_TRACE world0) = Some (Return (), w1)"
    by simp
  with b s show "\<exists>w1. LogDirectoryCleanup_body ?env ''/logs'' 5 (Start LEVEL_TRACE world0)
        = (Panic (ARuntimeError ''index out of range''), w1)
      \<and> secondary_alert (Suc 0) ?env ''LogDirectoryCleanup''
           (ARuntimeError ''index out of range'') w1 = Some (Return None, w1)
      \<and> LogDirectoryCleanup (Suc 0) ?env ''/logs'' 5 (Start LEVEL_TRACE world0)
        = Some (Return (), w1)" by blast
qed

text \<open>
  C7 fails on the code (a defect of the code: the secondary alert of \<open>CatchPanic\<close> is
  sent before the panic value is stored, through \<open>SendEmailException\<close>, which recovers
  its own panics by calling \<open>CatchPanic\<close> again, and nothing bounds the recursion). The
  logger is started and has an email configuration, and the mail transport panics on
  every hand-off. \<open>SendEmailException("disk", "disk full")\<close> panics in its body; the
  deferred \<open>CatchPanic\<close> recovers the panic and sends the secondary alert, which panics
  in the same way and is recovered by a further \<open>CatchPanic\<close>, and so on: with no fuel
  does \<open>CatchPanic\<close> come to an end, so the panic value is never stored in the slot,
  and with no fuel does \<open>SendEmailException\<close> return to its caller.
\<close>

theorem C7_persistent_panic_never_recovered:
  "\<exists>w1. SendEmailException_body env_broken ''disk'' ''disk full'' [] world_mail
          = (Panic (AString ''connection reset''), w1)
     \<and> (\<forall>n. CatchPanic n env_broken (Some None) ''SendEmailException''
               (Some (AString ''connection reset'')) w1 = None)
     \<and> (\<forall>n. SendEmailException n env_broken ''disk'' ''disk full'' [] world_mail = None)"
proof -
  have t: "\<And>k. template_Execute env_broken k = Returns None"
    and m: "\<And>k m. smtp_SendMail env_broken k m = Panics (AString ''connection reset'')"
    by (simp_all add: env_broken_def env0_def)
  have c: "tl_EmailConfiguration (logger world_mail) \<noteq> None"
    by (simp add: world_mail_def ConfigureEmail_def)
  then obtain cfg where cfg: "tl_EmailConfiguration (logger world_mail) = Some cfg" by auto
  obtain w1 where body: "SendEmailException_body env_broken ''disk'' ''disk full'' [] world_mail
      = (Panic (AString ''connection reset''), w1)"
    by (simp add: SendEmailException_body_def cfg t m Let_def)
  from body_frame [OF body] c have c1: "tl_EmailConfiguration (logger w1) \<noteq> None"
    by (simp add: mail_only_def)
  have "CatchPanic n env_broken (Some None) ''SendEmailException''
      (Some (AString ''connection reset'')) w1 = None" for n
    by (simp only: CatchPanic.simps SendEmailException_diverges [OF t m c1] option.case)
  moreover have "SendEmailException n env_broken ''disk'' ''disk full'' [] world_mail = None" for n
    by (rule SendEmailException_diverges [OF t m c])
  ultimately show ?thesis using body by blast
qed

section \<open>The sweep on a started logger\<close>

lemma swept_refl: "swept w w []"
  by (simp add: swept_def)

lemma swept_trans: "swept w w1 a \<Longrightarrow> swept w1 w2 b \<Longrightarrow> swept w w2 (a @ b)"
  by (auto simp add: swept_def)

lemma swept_rm: "swept w (w\<lparr>rm_calls := rm_calls w @ [x]\<rparr>) [x]"
  by (simp add: swept_def)

lemma swept_logger: "swept w w' rms \<Longrightarrow> logger w' = logger w"
  by (auto simp add: swept_def)

lemma swept_frame:
  "swept w w' rms \<Longrightarrow> logger w' = logger w \<and> renders w' = renders w \<and> mails w' = mails w
     \<and> open_files w' = open_files w \<and> rm_calls w' = rm_calls w @ rms"
  by (auto simp add: swept_def)

lemma emit_swept:
  assumes "ready (logger w)" "sel = tl_Trace \<or> sel = tl_Info \<or> sel = tl_Warning \<or> sel = tl_Error"
  shows "\<exists>w'. emit sel cd line w = (Return (), w') \<and> swept w w' []"
proof -
  from assms obtain lg where lg: "sel (logger w) = Some lg" and u: "\<not> tl_Serialize (logger w)"
    by (auto simp add: ready_def)
  from assms(2) have "\<And>t b. sel (t\<lparr>tl_Serialize := b\<rparr>) = sel t" by auto
  from emit_ready [OF lg u this] show ?thesis
    by (simp add: swept_def)
qed

lemma log_swept:
  assumes "ready (logger w)"
  shows "\<exists>w'. Trace env t f fmt a w = (Return (), w') \<and> swept w w' []"
    "\<exists>w'. Errorf env err t f fmt a w = (Return (), w') \<and> swept w w' []"
    "\<exists>w'. Startedf env t f fmt a w = (Return (), w') \<and> swept w w' []"
    "\<exists>w'. Started t f w = (Return (), w') \<and> swept w w' []"
    "\<exists>w'. Completed t f w = (Return (), w') \<and> swept w w' []"
    "\<exists>w'. CompletedError err t f w = (Return (), w') \<and> swept w w' []"
  using assms by (simp_all only: calls_emit emit_swept simp_thms)

lemma strings_Split_nonempty: "strings_Split s c \<noteq> []"
  by (induction s) (auto split: list.splits)

lemma index_simps:
  "i < length xs \<Longrightarrow> index xs i k w = k (xs ! i) w"
  "\<not> i < length xs \<Longrightarrow> index xs i k w = (Panic (ARuntimeError ''index out of range''), w)"
  by (simp_all add: index_def)

lemma cleanup_entry_swept:
  assumes r: "ready (logger w)"
  shows "\<exists>w'. cleanup_entry env base cmp fi w =
           ((if too_short env fi then Panic (ARuntimeError ''index out of range'') else Return ()), w')
         \<and> swept w w' (if too_short env fi then [] else removal env base cmp fi)"
proof (cases "fi_IsDir fi")
  case False
  then show ?thesis
    by (simp add: cleanup_entry_def too_short_def removal_def swept_refl)
next
  case True
  define parts where "parts = strings_Split (fi_Name fi) (CHR ''-'')"
  have ne: "0 < length parts"
    using strings_Split_nonempty [of "fi_Name fi" "CHR ''-''"] by (simp add: parts_def)
  note err = log_swept(2) [OF r, of env _ "''main''" "''LogDirectoryCleanup''"
      "''Attempting To Convert Directory [%s]''" "[AString (fi_Name fi)]"]
  show ?thesis
  proof (cases "strconv_Atoi env (parts ! 0)")
    case (Inl e0)
    with True ne err [of "Some e0"] show ?thesis
      by (simp add: cleanup_entry_def too_short_def removal_def parts_def [symmetric]
          index_simps numeric_def Let_def)
  next
    case y: (Inr year)
    show ?thesis
    proof (cases "1 < length parts")
      case False
      with ne have "length parts = 1" by (cases parts) auto
      with True y show ?thesis
        by (simp add: cleanup_entry_def too_short_def parts_def [symmetric]
            index_simps numeric_def Let_def swept_refl)
    next
      case l1: True
      show ?thesis
      proof (cases "strconv_Atoi env (parts ! 1)")
        case (Inl e1)
        with True ne l1 y err [of "Some e1"] show ?thesis
          by (simp add: cleanup_entry_def too_short_def removal_def parts_def [symmetric]
              index_simps numeric_def Let_def)
      next
        case m: (Inr month)
        show ?thesis
        proof (cases "2 < length parts")
          case False
          with l1 have "length parts = 2" by linarith
          with True y m show ?thesis
            by (simp add: cleanup_entry_def too_short_def parts_def [symmetric]
                index_simps numeric_def Let_def swept_refl)
        next
          case l2: True
          then have ns: "\<not> too_short env fi"
            by (simp add: too_short_def parts_def [symmetric] Let_def)
          show ?thesis
          proof (cases "strconv_Atoi env (parts ! 2)")
            case (Inl e2)
            with True ne l1 l2 y m ns err [of "Some e2"] show ?thesis
              by (simp add: cleanup_entry_def removal_def parts_def [symmetric]
                  index_simps Let_def)
          next
            case d: (Inr day)
            define full where "full = base @ ''/'' @ fi_Name fi"
            define daysOld where
              "daysOld = days_of_Duration (time_Sub cmp (time_Date year month day))"
            have rem: "removal env base cmp fi = (if 0 \<le> daysOld then [full] else [])"
              using True l2 y m d
              by (simp add: removal_def parts_def [symmetric] Let_def daysOld_def full_def)
            from log_swept(1) [OF r] obtain w1 where
              t1: "Trace env ''main'' ''LogDirectoryCleanup'' ''Checking Directory[%s] DaysOld[%d]''
                     [AString full, AInt daysOld] w = (Return (), w1)"
              and s1: "swept w w1 []" by blast
            from s1 r have r1: "ready (logger w1)" by (simp add: swept_logger)
            have entry: "cleanup_entry env base cmp fi w =
               (if 0 \<le> daysOld then
                  and_then (Trace env ''main'' ''LogDirectoryCleanup'' ''Removing Directory[%s]''
                              [AString full] w1)
                    (\<lambda>_ w. case os_RemoveAll env full of
                       Some err \<Rightarrow> Trace env ''main'' ''LogDirectoryCleanup''
                          ''Attempting To Remove Directory [%s]'' [AString full]
                          (w\<lparr>rm_calls := rm_calls w @ [full]\<rparr>)
                     | None \<Rightarrow> Trace env ''main'' ''LogDirectoryCleanup''
                          ''Directory Removed [%s]'' [AString full]
                          (w\<lparr>rm_calls := rm_calls w @ [full]\<rparr>))
                else (Return (), w1))"
              using True ne l1 l2 y m d t1
              by (simp add: cleanup_entry_def parts_def [symmetric] index_simps Let_def
                  daysOld_def [symmetric] full_def cong: option.case_cong)
            show ?thesis
            proof (cases "0 \<le> daysOld")
              case False
              with entry rem ns s1 show ?thesis by simp
            next
              case old: True
              from log_swept(1) [OF r1] obtain w2 where
                t2: "Trace env ''main'' ''LogDirectoryCleanup'' ''Removing Directory[%s]''
                       [AString full] w1 = (Return (), w2)"
                and s2: "swept w1 w2 []" by blast
              let ?w3 = "w2\<lparr>rm_calls := rm_calls w2 @ [full]\<rparr>"
              have s3: "swept w2 ?w3 [full]" by (rule swept_rm)
              from s2 r1 have r3: "ready (logger ?w3)" by (simp add: swept_logger)
              from log_swept(1) [OF r3] obtain w4 w5 where
                t4: "Trace env ''main'' ''LogDirectoryCleanup''
                       ''Attempting To Remove Directory [%s]'' [AString full] ?w3 = (Return (), w4)"
                and s4: "swept ?w3 w4 []"
                and t5: "Trace env ''main'' ''LogDirectoryCleanup''
                       ''Directory Removed [%s]'' [AString full] ?w3 = (Return (), w5)"
                and s5: "swept ?w3 w5 []" by blast
              from swept_trans [OF swept_trans [OF swept_trans [OF s1 s2] s3] s4]
              have a4: "swept w w4 [full]" by simp
              from swept_trans [OF swept_trans [OF swept_trans [OF s1 s2] s3] s5]
              have a5: "swept w w5 [full]" by simp
              from entry old t2 t4 t5 a4 a5 rem ns show ?thesis
                by (cases "os_RemoveAll env full") simp_all
            qed
          qed
        qed
      qed
    qed
  qed
qed

lemma cleanup_loop_swept:
  assumes "ready (logger w)"
  shows "\<exists>w'. cleanup_loop env base cmp fis w =
           ((if list_ex (too_short env) fis then Panic (ARuntimeError ''index out of range'')
             else Return ()), w')
         \<and> swept w w' (concat (map (removal env base cmp)
                          (takeWhile (\<lambda>fi. \<not> too_short env fi) fis)))"
  using assms
proof (induction fis arbitrary: w)
  case Nil
  then show ?case by (simp add: swept_refl)
next
  case (Cons fi fis)
  from cleanup_entry_swept [OF Cons.prems, of env base cmp fi] obtain w1 where
    e: "cleanup_entry env base cmp fi w =
           ((if too_short env fi then Panic (ARuntimeError ''index out of range'') else Return ()), w1)"
    and s: "swept w w1 (if too_short env fi then [] else removal env base cmp fi)" by blast
  show ?case
  proof (cases "too_short env fi")
    case True
    with e s show ?thesis by simp
  next
    case False
    from s Cons.prems have "ready (logger w1)" by (simp add: swept_logger)
    from Cons.IH [OF this] obtain w2 where
      l: "cleanup_loop env base cmp fis w1 =
           ((if list_ex (too_short env) fis then Panic (ARuntimeError ''index out of range'')
             else Return ()), w2)"
      and s2: "swept w1 w2 (concat (map (removal env base cmp)
                          (takeWhile (\<lambda>fi. \<not> too_short env fi) fis)))" by blast
    from False e l swept_trans [OF s s2] show ?thesis by simp
  qed
qed

lemma LogDirectoryCleanup_body_swept:
  assumes r: "ready (logger w)"
    and dir: "ioutil_ReadDir env base = Inr fis"
    and now: "time_Now env = (year, month, day)"
  shows "\<exists>w'. LogDirectoryCleanup_body env base keep w =
           ((if list_ex (too_short env) fis then Panic (ARuntimeError ''index out of range'')
             else Return ()), w')
         \<and> swept w w' (concat (map (removal env base (time_Date year month (int64 (day - keep))))
                          (takeWhile (\<lambda>fi. \<not> too_short env fi) fis)))"
proof -
  let ?cmp = "time_Date year month (int64 (day - keep))"
  from log_swept(3) [OF r] obtain w1 where
    a: "Startedf env ''main'' ''LogDirectoryCleanup'' ''BaseFilePath[%s] DaysToKeep[%d]''
          [AString base, AInt keep] w = (Return (), w1)" and s1: "swept w w1 []" by blast
  from s1 r have r1: "ready (logger w1)" by (simp add: swept_logger)
  from log_swept(1) [OF r1] obtain w2 where
    b: "Trace env ''main'' ''LogDirectoryCleanup'' ''CompareDate[%v]'' [ATime ?cmp] w1 = (Return (), w2)"
    and s2: "swept w1 w2 []" by blast
  from s2 r1 have r2: "ready (logger w2)" by (simp add: swept_logger)
  from cleanup_loop_swept [OF r2, of env base ?cmp fis] obtain w3 where
    c: "cleanup_loop env base ?cmp fis w2 =
           ((if list_ex (too_short env) fis then Panic (ARuntimeError ''index out of range'')
             else Return ()), w3)"
    and s3: "swept w2 w3 (concat (map (removal env base ?cmp)
                          (takeWhile (\<lambda>fi. \<not> too_short env fi) fis)))" by blast
  from s3 r2 have r3: "ready (logger w3)" by (simp add: swept_logger)
  from log_swept(5) [OF r3] obtain w4 where
    d: "Completed ''main'' ''LogDirectoryCleanup'' w3 = (Return (), w4)"
    and s4: "swept w3 w4 []" by blast
  from swept_trans [OF swept_trans [OF s1 s2] s3]
  have s13: "swept w w3 (concat (map (removal env base ?cmp)
                          (takeWhile (\<lambda>fi. \<not> too_short env fi) fis)))" by simp
  from swept_trans [OF s13 s4]
  have s14: "swept w w4 (concat (map (removal env base ?cmp)
                          (takeWhile (\<lambda>fi. \<not> too_short env fi) fis)))" by simp
  show ?thesis
    using a b c d s13 s14 dir now
    by (simp add: LogDirectoryCleanup_body_def)
qed

lemma LogDirectoryCleanup_body_ready:
  assumes r: "ready (logger w)"
  shows "\<exists>b w' rms. LogDirectoryCleanup_body env base keep w = (b, w') \<and> swept w w' rms
           \<and> (b = Return () \<or> b = Panic (ARuntimeError ''index out of range''))"
proof (cases "ioutil_ReadDir env base")
  case (Inl err)
  from log_swept(3) [OF r] obtain w1 where
    a: "Startedf env ''main'' ''LogDirectoryCleanup'' ''BaseFilePath[%s] DaysToKeep[%d]''
          [AString base, AInt keep] w = (Return (), w1)" and s1: "swept w w1 []" by blast
  from s1 r have r1: "ready (logger w1)" by (simp add: swept_logger)
  from log_swept(6) [OF r1] obtain w2 where
    b: "CompletedError (Some err) ''main'' ''LogDirectoryCleanup'' w1 = (Return (), w2)"
    and s2: "swept w1 w2 []" by blast
  from swept_trans [OF s1 s2] a b Inl show ?thesis
    by (auto simp add: LogDirectoryCleanup_body_def)
next
  case (Inr fis)
  obtain year month day where "time_Now env = (year, month, day)" by (cases "time_Now env")
  from LogDirectoryCleanup_body_swept [OF r Inr this, of keep] show ?thesis
    by (cases "list_ex (too_short env) fis") auto
qed

section \<open>Names, numbers and dates\<close>

lemma strings_Split_none: "c \<notin> set a \<Longrightarrow> strings_Split a c = [a]"
  by (induction a) auto

lemma strings_Split_append:
  "c \<notin> set a \<Longrightarrow> strings_Split (a @ c # rest) c = a # strings_Split rest c"
  by (induction a) auto

lemma is_digit_not_sign: "is_digit c \<Longrightarrow> c \<noteq> CHR ''-'' \<and> c \<noteq> CHR ''+''"
  by (auto simp add: is_digit_def)

lemma digits_no_dash: "list_all is_digit ds \<Longrightarrow> CHR ''-'' \<notin> set ds"
  using is_digit_not_sign by (auto simp add: list_all_iff)

lemma digit_val_range: "is_digit c \<Longrightarrow> 0 \<le> digit_val c \<and> digit_val c \<le> 9"
  by (auto simp add: is_digit_def digit_val_def)

lemma digits_val_snoc: "digits_val (ds @ [c]) = 10 * digits_val ds + digit_val c"
  by (simp add: digits_val_def)

lemma digits_val_range:
  "list_all is_digit ds \<Longrightarrow> 0 \<le> digits_val ds \<and> digits_val ds < 10 ^ length ds"
proof (induction ds rule: rev_induct)
  case Nil
  then show ?case by (simp add: digits_val_def)
next
  case (snoc c ds)
  then have "0 \<le> digits_val ds \<and> digits_val ds < 10 ^ length ds" and "is_digit c" by simp_all
  with digit_val_range [of c] show ?case
    by (simp add: digits_val_snoc)
qed

lemma strconv_Atoi_digits:
  assumes "ds \<noteq> []" "list_all is_digit ds" "length ds \<le> 18"
  shows "strconv_Atoi env ds = Inr (digits_val ds)"
proof -
  from assms obtain c r where ds: "ds = c # r" by (cases ds) auto
  with assms have c: "c \<noteq> CHR ''-''" "c \<noteq> CHR ''+''" using is_digit_not_sign [of c] by auto
  from digits_val_range [OF assms(2)] have "0 \<le> digits_val ds" "digits_val ds < 10 ^ length ds"
    by simp_all
  moreover have "(10::int) ^ length ds \<le> 10 ^ 18"
    using assms(3) by (intro power_increasing) simp_all
  ultimately have "- (2 ^ 63) \<le> digits_val ds" "digits_val ds < 2 ^ 63" by simp_all
  then show ?thesis
    using assms c unfolding ds strconv_Atoi_def
    by (simp add: Let_def)
qed

lemma date_shaped_parts:
  assumes "date_shaped name"
  shows "strings_Split name (CHR ''-'') = [take 4 name, take 2 (drop 5 name), drop 8 name]"
proof -
  let ?y = "take 4 name" and ?m = "take 2 (drop 5 name)" and ?d = "drop 8 name"
  from assms have len: "length name = 10" and y: "list_all is_digit ?y"
    and m: "list_all is_digit ?m" and d: "list_all is_digit ?d"
    and s4: "name ! 4 = CHR ''-''" and s7: "name ! 7 = CHR ''-''"
    by (simp_all add: date_shaped_def)
  have "name = ?y @ drop 4 name" by (rule append_take_drop_id [symmetric])
  also have "drop 4 name = name ! 4 # drop 5 name"
    using len by (simp add: Cons_nth_drop_Suc [symmetric])
  also have "drop 5 name = ?m @ drop 2 (drop 5 name)"
    by (rule append_take_drop_id [symmetric])
  also have "drop 2 (drop 5 name) = name ! 7 # drop 8 name"
    using len by (simp add: Cons_nth_drop_Suc [symmetric])
  finally have name: "name = ?y @ CHR ''-'' # ?m @ CHR ''-'' # ?d"
    using s4 s7 by simp
  have "strings_Split (?y @ CHR ''-'' # ?m @ CHR ''-'' # ?d) (CHR ''-'') = [?y, ?m, ?d]"
    by (simp only: strings_Split_append [OF digits_no_dash [OF y]]
        strings_Split_append [OF digits_no_dash [OF m]] strings_Split_none [OF digits_no_dash [OF d]])
  with name show ?thesis by simp
qed

lemma date_shaped_removal:
  assumes "date_shaped name"
  shows "\<not> too_short env (dir name)"
    and "removal env base cmp (dir name) =
      (if 0 \<le> days_of_Duration (time_Sub cmp (name_date name)) then [base @ ''/'' @ name] else [])"
proof -
  from assms have len: "length name = 10" and y: "list_all is_digit (take 4 name)"
    and m: "list_all is_digit (take 2 (drop 5 name))" and d: "list_all is_digit (drop 8 name)"
    by (simp_all add: date_shaped_def)
  from len have ne: "take 4 name \<noteq> []" "take 2 (drop 5 name) \<noteq> []" "drop 8 name \<noteq> []"
    by auto
  have a: "strconv_Atoi env (take 4 name) = Inr (digits_val (take 4 name))"
    "strconv_Atoi env (take 2 (drop 5 name)) = Inr (digits_val (take 2 (drop 5 name)))"
    "strconv_Atoi env (drop 8 name) = Inr (digits_val (drop 8 name))"
    using y m d ne len by (simp_all add: strconv_Atoi_digits)
  show "\<not> too_short env (dir name)"
    by (simp add: too_short_def dir_def date_shaped_parts [OF assms])
  show "removal env base cmp (dir name) =
      (if 0 \<le> days_of_Duration (time_Sub cmp (name_date name)) then [base @ ''/'' @ name] else [])"
    by (simp add: removal_def dir_def date_shaped_parts [OF assms] a name_date_def)
qed

lemma time_Date_day: "time_Date year month (day + k) = time_Date year month day + k"
  by (simp add: time_Date_def Let_def)

lemma int64_id: "- (2 ^ 63) \<le> x \<Longrightarrow> x < 2 ^ 63 \<Longrightarrow> int64 x = x"
  by (simp add: int64_def)

lemma daysOld_sign: "0 \<le> days_of_Duration (time_Sub c d) \<longleftrightarrow> d \<le> c"
proof -
  have N: "(0::int) < nanoseconds_per_day" by (simp add: nanoseconds_per_day_def)
  consider "2 ^ 63 \<le> (c - d) * nanoseconds_per_day"
    | "(c - d) * nanoseconds_per_day < - (2 ^ 63)"
    | "- (2 ^ 63) \<le> (c - d) * nanoseconds_per_day" "(c - d) * nanoseconds_per_day < 2 ^ 63"
    by linarith
  then show ?thesis
  proof cases
    case 1
    then have "0 < (c - d) * nanoseconds_per_day" by simp
    with N have "0 < c - d" by (simp add: zero_less_mult_iff)
    moreover from 1 have "time_Sub c d = 2 ^ 63 - 1" by (simp add: time_Sub_def)
    ultimately show ?thesis by (simp add: days_of_Duration_def nanoseconds_per_day_def)
  next
    case 2
    then have "(c - d) * nanoseconds_per_day < 0" by simp
    with N have "c - d < 0" by (simp add: mult_less_0_iff)
    moreover from 2 have "time_Sub c d = - (2 ^ 63)" by (simp add: time_Sub_def Let_def)
    ultimately show ?thesis by (simp add: days_of_Duration_def nanoseconds_per_day_def)
  next
    case 3
    then have "time_Sub c d = (c - d) * nanoseconds_per_day" by (simp add: time_Sub_def Let_def)
    then have "days_of_Duration (time_Sub c d) = sgn (c - d) * \<bar>c - d\<bar>"
      using N by (simp add: days_of_Duration_def abs_mult sgn_mult)
    then show ?thesis by (simp add: mult_sgn_abs)
  qed
qed

text \<open>The day numbers agree with the calendar: leap years, the turn of a year, the
  normalisation of a day or a month out of range, and the first day of the Unix era.\<close>

lemma time_Date_examples:
  "time_Date 2024 3 1 - time_Date 2024 2 28 = 2"
  "time_Date 2023 3 1 - time_Date 2023 2 28 = 1"
  "time_Date 2024 1 1 - time_Date 2023 12 31 = 1"
  "time_Date 2024 1 0 = time_Date 2023 12 31"
  "time_Date 2024 13 1 = time_Date 2025 1 1"
  "time_Date 1970 1 1 = 719162"
  by (simp_all add: time_Date_def isLeap_def daysBefore_def days_before_year_def)

section \<open>The retention boundary (C3)\<close>

lemma removal_member:
  "x \<in> set (removal env base cmp fi) \<Longrightarrow> fi_IsDir fi \<and> x = base @ ''/'' @ fi_Name fi"
proof -
  assume x: "x \<in> set (removal env base cmp fi)"
  let ?parts = "strings_Split (fi_Name fi) (CHR ''-'')"
  show ?thesis
  proof (cases "fi_IsDir fi \<and> 3 \<le> length ?parts")
    case False
    with x show ?thesis by (simp add: removal_def Let_def)
  next
    case True
    with x show ?thesis
      by (cases "strconv_Atoi env (?parts ! 0)"; cases "strconv_Atoi env (?parts ! 1)";
          cases "strconv_Atoi env (?parts ! 2)")
        (simp_all add: removal_def Let_def split: if_splits)
  qed
qed

lemma dir_eq: "fi_IsDir fi \<Longrightarrow> fi_Name fi = name \<Longrightarrow> fi = dir name"
  by (simp add: dir_def)

lemma removed_iff:
  assumes "dir name \<in> set fis" "date_shaped name"
  shows "base @ ''/'' @ name \<in> set (concat (map (removal env base cmp) fis))
     \<longleftrightarrow> name_date name \<le> cmp"
proof
  assume "base @ ''/'' @ name \<in> set (concat (map (removal env base cmp) fis))"
  then obtain fi where fi: "fi \<in> set fis" and x: "base @ ''/'' @ name \<in> set (removal env base cmp fi)"
    by auto
  from removal_member [OF x] have "fi = dir name" by (simp add: dir_eq)
  with x date_shaped_removal(2) [OF assms(2), of env base cmp] show "name_date name \<le> cmp"
    by (simp add: daysOld_sign split: if_splits)
next
  assume "name_date name \<le> cmp"
  with date_shaped_removal(2) [OF assms(2), of env base cmp]
  have "base @ ''/'' @ name \<in> set (removal env base cmp (dir name))"
    by (simp add: daysOld_sign)
  with assms(1) show "base @ ''/'' @ name \<in> set (concat (map (removal env base cmp) fis))"
    by auto
qed

lemma takeWhile_all: "\<not> list_ex P xs \<Longrightarrow> takeWhile (\<lambda>x. \<not> P x) xs = xs"
  by (induction xs) auto

text \<open>
  Where the sweep does not panic, the boundary is where the specification puts it. Let
  the logger be started, let the base directory list without error, and let no directory
  of the listing have a name that makes the loop panic (one or two numeric parts only).
  Then, for every \<open>daysToKeep\<close> (within 32 bits) and every directory of the listing
  whose name has the form YYYY-MM-DD, \<open>LogDirectoryCleanup\<close> returns, and it has given
  that directory to \<open>os.RemoveAll\<close> if and only if
  \<open>daysOld = (today - daysToKeep) - (the directory's date)\<close>, in whole days, is not
  negative.
\<close>

lemma retention_boundary:
  assumes ready: "ready (logger w)"
    and listing: "ioutil_ReadDir env baseFilePath = Inr fileInfos"
    and no_short: "\<not> list_ex (too_short env) fileInfos"
    and entry: "dir name \<in> set fileInfos"
    and shape: "date_shaped name"
    and now: "time_Now env = (year, month, day)" and day: "1 \<le> day" "day \<le> 31"
    and keep: "\<bar>daysToKeep\<bar> < 2 ^ 31"
  shows "\<exists>w'. LogDirectoryCleanup fuel env baseFilePath daysToKeep w = Some (Return (), w')
     \<and> (baseFilePath @ ''/'' @ name \<in> set (drop (length (rm_calls w)) (rm_calls w'))
          \<longleftrightarrow> 0 \<le> (time_Date year month day - daysToKeep) - name_date name)"
proof -
  let ?cmp = "time_Date year month (int64 (day - daysToKeep))"
  from day keep have "int64 (day - daysToKeep) = day + (- daysToKeep)"
    by (simp add: int64_id)
  then have "?cmp = time_Date year month day + (- daysToKeep)"
    by (simp only: time_Date_day)
  then have cmp: "?cmp = time_Date year month day - daysToKeep"
    by simp
  from LogDirectoryCleanup_body_swept [OF ready listing now, of daysToKeep] no_short
  obtain w' where body: "LogDirectoryCleanup_body env baseFilePath daysToKeep w = (Return (), w')"
    and s: "swept w w' (concat (map (removal env baseFilePath ?cmp) fileInfos))"
    by (auto simp add: takeWhile_all)
  from body have "LogDirectoryCleanup fuel env baseFilePath daysToKeep w = Some (Return (), w')"
    by (simp add: LogDirectoryCleanup_def recovered_def)
  moreover from s have "drop (length (rm_calls w)) (rm_calls w')
      = concat (map (removal env baseFilePath ?cmp) fileInfos)"
    by (simp add: swept_def)
  ultimately show ?thesis
    using removed_iff [OF entry shape, of baseFilePath env ?cmp] cmp by simp
qed

text \<open>\<open>turnOnLogging\<close> leaves a started logger with a free mutex.\<close>

lemma ready_Start: "ready (logger (Start L w))"
  by (simp add: ready_def Start_def turnOnLogging_def zero_traceLog_def Let_def
      split: prod.splits)

text \<open>
  Today 2024-06-10, five days to keep: of the directories 2024-06-05 and 2024-06-06
  the first is removed, the second is not.
\<close>

lemma retention_boundary_example:
  "\<exists>w'. LogDirectoryCleanup 0 (env_dirs [dir ''2024-06-05'', dir ''2024-06-06'']) ''/logs'' 5
           (Start LEVEL_TRACE world0) = Some (Return (), w')
     \<and> ''/logs/2024-06-05'' \<in> set (rm_calls w')
     \<and> ''/logs/2024-06-06'' \<notin> set (rm_calls w')"
proof -
  let ?fis = "[dir ''2024-06-05'', dir ''2024-06-06'']"
  let ?env = "env_dirs ?fis"
  let ?w = "Start LEVEL_TRACE world0"
  have r: "ready (logger ?w)" by (rule ready_Start)
  have l: "ioutil_ReadDir ?env ''/logs'' = Inr ?fis"
    by (simp add: ioutil_ReadDir_def env_dirs_def env0_def dir_def)
  have s5: "date_shaped ''2024-06-05''" and s6: "date_shaped ''2024-06-06''"
    by (simp_all add: date_shaped_def is_digit_def)
  have ns: "\<not> list_ex (too_short ?env) ?fis"
    using date_shaped_removal(1) [OF s5, of ?env] date_shaped_removal(1) [OF s6, of ?env]
    by simp
  have now: "time_Now ?env = (2024, 6, 10)" by (simp add: env_dirs_def env0_def)
  have rm0: "rm_calls ?w = []" by (simp add: eval_defs)
  have d5: "name_date ''2024-06-05'' = time_Date 2024 6 10 - 5"
    and d6: "name_date ''2024-06-06'' = time_Date 2024 6 10 - 4"
    by (simp_all add: name_date_def digits_val_def digit_val_def time_Date_def isLeap_def
        daysBefore_def days_before_year_def)
  from retention_boundary [OF r l ns _ s5 now, of 5 0] obtain w' where
    a: "LogDirectoryCleanup 0 ?env ''/logs'' 5 ?w = Some (Return (), w')"
    and b: "''/logs/2024-06-05'' \<in> set (rm_calls w')"
    by (auto simp add: rm0 d5)
  from retention_boundary [OF r l ns _ s6 now, of 5 0] a
  have "''/logs/2024-06-06'' \<notin> set (rm_calls w')"
    by (auto simp add: rm0 d6)
  with a b show ?thesis by blast
qed

text \<open>
  C3 fails on the code (a defect of the code, the one of C4: the loop reads the second
  and third part of a name without having checked that the name has them). The base
  directory holds the directories \<open>2024\<close>, \<open>2024-01-01\<close> and \<open>2024-06-05\<close>, which is the
  order in which \<open>ioutil.ReadDir\<close> lists them; today is 2024-06-10 and five days are
  kept. Both dated directories have a \<open>daysOld\<close> that is not negative (that of
  \<open>2024-06-05\<close>, dated exactly five days before today, is 0), so the claim has both
  deleted. The code panics on \<open>2024\<close>, the deferred \<open>CatchPanic\<close> recovers,
  \<open>LogDirectoryCleanup\<close> returns, and \<open>os.RemoveAll\<close> was never called.
\<close>

theorem C3_old_directories_left_behind:
  "ioutil_ReadDir (env_dirs [dir ''2024'', dir ''2024-01-01'', dir ''2024-06-05'']) ''/logs''
     = Inr [dir ''2024'', dir ''2024-01-01'', dir ''2024-06-05'']
   \<and> date_shaped ''2024-01-01''
   \<and> 0 \<le> (time_Date 2024 6 10 - 5) - name_date ''2024-01-01''
   \<and> date_shaped ''2024-06-05''
   \<and> (time_Date 2024 6 10 - 5) - name_date ''2024-06-05'' = 0
   \<and> (\<exists>w'. LogDirectoryCleanup (Suc 0)
              (env_dirs [dir ''2024'', dir ''2024-01-01'', dir ''2024-06-05'']) ''/logs'' 5
              (Start LEVEL_TRACE world0) = Some (Return (), w')
        \<and> rm_calls w' = [])"
proof -
  have "ioutil_ReadDir (env_dirs [dir ''2024'', dir ''2024-01-01'', dir ''2024-06-05'']) ''/logs''
     = Inr [dir ''2024'', dir ''2024-01-01'', dir ''2024-06-05'']"
    by (simp add: ioutil_ReadDir_def env_dirs_def env0_def dir_def)
  moreover have "date_shaped ''2024-01-01''" "date_shaped ''2024-06-05''"
    by (simp_all add: date_shaped_def is_digit_def)
  moreover have "0 \<le> (time_Date 2024 6 10 - 5) - name_date ''2024-01-01''"
    "(time_Date 2024 6 10 - 5) - name_date ''2024-06-05'' = 0"
    by (simp_all add: name_date_def digits_val_def digit_val_def time_Date_def isLeap_def
        daysBefore_def days_before_year_def)
  moreover have "\<exists>w'. LogDirectoryCleanup (Suc 0)
              (env_dirs [dir ''2024'', dir ''2024-01-01'', dir ''2024-06-05'']) ''/logs'' 5
              (Start LEVEL_TRACE world0) = Some (Return (), w')
        \<and> rm_calls w' = []"
    by (simp add: LogDirectoryCleanup_def sweep_defs eval_defs recovered_def
        SendEmailException_body_def Let_def)
  ultimately show ?thesis by blast
qed

section \<open>Malformed names (C4)\<close>

text \<open>
  C4 fails on the code (a defect of the code, the one of C3). The base directory holds
  the directories \<open>2024\<close> and \<open>2024-06-01\<close>, which is the order in which
  \<open>ioutil.ReadDir\<close> lists them; today is 2024-06-10 and five days are kept. The name
  \<open>2024\<close> has one part, which is a number, so the loop's body reads the missing second
  part and panics; the deferred \<open>CatchPanic\<close> recovers, and \<open>LogDirectoryCleanup\<close>
  returns with the sweep cut short: no error was logged for \<open>2024\<close>, the directory
  \<open>2024-06-01\<close> was never looked at, and the line that completes the sweep was not
  written. The same happens with \<open>2024-06\<close> in the place of \<open>2024\<close>, at the missing
  third part. With \<open>2023-xx-01\<close> in that place (a name with three parts, the second
  not a number) the error is logged and the sweep goes on to \<open>2024-06-01\<close>, which it
  removes.
\<close>

theorem C4_short_name_aborts_sweep:
  "ioutil_ReadDir (env_dirs [dir ''2024'', dir ''2024-06-01'']) ''/logs''
     = Inr [dir ''2024'', dir ''2024-06-01'']
   \<and> (\<exists>w'. LogDirectoryCleanup (Suc 0) (env_dirs [dir ''2024'', dir ''2024-06-01'']) ''/logs'' 5
            (Start LEVEL_TRACE world0) = Some (Return (), w')
      \<and> rm_calls w' = []
      \<and> map we_line (writes w') =
          [''main : LogDirectoryCleanup : Started : BaseFilePath[%s] DaysToKeep[%d]\<newline>'',
           ''main : LogDirectoryCleanup : Info : CompareDate[%v]\<newline>''])
   \<and> ioutil_ReadDir (env_dirs [dir ''2024-06'', dir ''2024-06-01'']) ''/logs''
     = Inr [dir ''2024-06'', dir ''2024-06-01'']
   \<and> (\<exists>w'. LogDirectoryCleanup (Suc 0) (env_dirs [dir ''2024-06'', dir ''2024-06-01''])
            ''/logs'' 5 (Start LEVEL_TRACE world0) = Some (Return (), w')
      \<and> rm_calls w' = []
      \<and> map we_line (writes w') =
          [''main : LogDirectoryCleanup : Started : BaseFilePath[%s] DaysToKeep[%d]\<newline>'',
           ''main : LogDirectoryCleanup : Info : CompareDate[%v]\<newline>''])
   \<and> ioutil_ReadDir (env_dirs [dir ''2023-xx-01'', dir ''2024-06-01'']) ''/logs''
     = Inr [dir ''2023-xx-01'', dir ''2024-06-01'']
   \<and> (\<exists>w'. LogDirectoryCleanup (Suc 0) (env_dirs [dir ''2023-xx-01'', dir ''2024-06-01''])
            ''/logs'' 5 (Start LEVEL_TRACE world0) = Some (Return (), w')
      \<and> rm_calls w' = [''/logs/2024-06-01'']
      \<and> map we_line (writes w') =
          [''main : LogDirectoryCleanup : Started : BaseFilePath[%s] DaysToKeep[%d]\<newline>'',
           ''main : LogDirectoryCleanup : Info : CompareDate[%v]\<newline>'',
           ''main : LogDirectoryCleanup : ERROR : Attempting To Convert Directory [%s] : ''
             @ ''strconv.Atoi: parsing '' @ [CHR 0x22] @ ''xx'' @ [CHR 0x22]
             @ '': invalid syntax\<newline>'',
           ''main : LogDirectoryCleanup : Info : Checking Directory[%s] DaysOld[%d]\<newline>'',
           ''main : LogDirectoryCleanup : Info : Removing Directory[%s]\<newline>'',
           ''main : LogDirectoryCleanup : Info : Directory Removed [%s]\<newline>'',
           ''main : LogDirectoryCleanup : Completed\<newline>''])"
proof -
  have "ioutil_ReadDir (env_dirs [dir ''2024'', dir ''2024-06-01'']) ''/logs''
     = Inr [dir ''2024'', dir ''2024-06-01'']"
    "ioutil_ReadDir (env_dirs [dir ''2024-06'', dir ''2024-06-01'']) ''/logs''
     = Inr [dir ''2024-06'', dir ''2024-06-01'']"
    "ioutil_ReadDir (env_dirs [dir ''2023-xx-01'', dir ''2024-06-01'']) ''/logs''
     = Inr [dir ''2023-xx-01'', dir ''2024-06-01'']"
    by (simp_all add: ioutil_ReadDir_def env_dirs_def env0_def dir_def)
  moreover have "\<exists>w'. LogDirectoryCleanup (Suc 0) (env_dirs [dir ''2024-06'', dir ''2024-06-01''])
            ''/logs'' 5 (Start LEVEL_TRACE world0) = Some (Return (), w')
      \<and> rm_calls w' = []
      \<and> map we_line (writes w') =
          [''main : LogDirectoryCleanup : Started : BaseFilePath[%s] DaysToKeep[%d]\<newline>'',
           ''main : LogDirectoryCleanup : Info : CompareDate[%v]\<newline>'']"
    by (simp add: LogDirectoryCleanup_def sweep_defs eval_defs recovered_def
        SendEmailException_body_def Let_def)
  moreover have "\<exists>w'. LogDirectoryCleanup (Suc 0) (env_dirs [dir ''2024'', dir ''2024-06-01''])
            ''/logs'' 5 (Start LEVEL_TRACE world0) = Some (Return (), w')
      \<and> rm_calls w' = []
      \<and> map we_line (writes w') =
          [''main : LogDirectoryCleanup : Started : BaseFilePath[%s] DaysToKeep[%d]\<newline>'',
           ''main : LogDirectoryCleanup : Info : CompareDate[%v]\<newline>'']"
    by (simp add: LogDirectoryCleanup_def sweep_defs eval_defs recovered_def
        SendEmailException_body_def Let_def)
  moreover have "\<exists>w'. LogDirectoryCleanup (Suc 0)
            (env_dirs [dir ''2023-xx-01'', dir ''2024-06-01''])
            ''/logs'' 5 (Start LEVEL_TRACE world0) = Some (Return (), w')
      \<and> rm_calls w' = [''/logs/2024-06-01'']
      \<and> map we_line (writes w') =
          [''main : LogDirectoryCleanup : Started : BaseFilePath[%s] DaysToKeep[%d]\<newline>'',
           ''main : LogDirectoryCleanup : Info : CompareDate[%v]\<newline>'',
           ''main : LogDirectoryCleanup : ERROR : Attempting To Convert Directory [%s] : ''
             @ ''strconv.Atoi: parsing '' @ [CHR 0x22] @ ''xx'' @ [CHR 0x22]
             @ '': invalid syntax\<newline>'',
           ''main : LogDirectoryCleanup : Info : Checking Directory[%s] DaysOld[%d]\<newline>'',
           ''main : LogDirectoryCleanup : Info : Removing Directory[%s]\<newline>'',
           ''main : LogDirectoryCleanup : Info : Directory Removed [%s]\<newline>'',
           ''main : LogDirectoryCleanup : Completed\<newline>'']"
    by (simp add: LogDirectoryCleanup_def sweep_defs eval_defs recovered_def
        SendEmailException_body_def Let_def)
  ultimately show ?thesis by blast
qed

section \<open>Re-initialisation and shutdown (C5, C10)\<close>

lemma LogDirectoryCleanup_ready:
  assumes r: "ready (logger w)" and a: "LogDirectoryCleanup n env base keep w = Some (res, w')"
  shows "res = Return () \<and> logger w' = logger w \<and> open_files w' = open_files w"
proof -
  from LogDirectoryCleanup_body_ready [OF r, of env base keep] obtain b w1 rms where
    body: "LogDirectoryCleanup_body env base keep w = (b, w1)" and s: "swept w w1 rms"
    and b: "b = Return () \<or> b = Panic (ARuntimeError ''index out of range'')" by blast
  from body b a obtain d slot where
    c: "CatchPanic n env None ''LogDirectoryCleanup'' (recovered b) w1 = Some (d, slot, w')"
    and res: "res = d"
    by (auto simp add: LogDirectoryCleanup_def split: option.splits)
  from CatchPanic_frame [OF c] have "mail_only w1 w'" "d = Return ()" by simp_all
  with s res show ?thesis
    by (simp add: swept_def mail_only_def)
qed

lemma LogDirectoryCleanup_returns:
  assumes r: "ready (logger w)" and c: "tl_EmailConfiguration (logger w) = None"
  shows "\<exists>w'. LogDirectoryCleanup (Suc n) env base keep w = Some (Return (), w')"
proof -
  from LogDirectoryCleanup_body_ready [OF r, of env base keep] obtain b w1 rms where
    body: "LogDirectoryCleanup_body env base keep w = (b, w1)" and s: "swept w w1 rms"
    and b: "b = Return () \<or> b = Panic (ARuntimeError ''index out of range'')" by blast
  from s c have c1: "tl_EmailConfiguration (logger w1) = None" by (simp add: swept_def)
  from b show ?thesis
  proof
    assume "b = Return ()"
    with body show ?thesis by (simp add: LogDirectoryCleanup_def recovered_def)
  next
    assume p: "b = Panic (ARuntimeError ''index out of range'')"
    have "secondary_alert (Suc n) env ''LogDirectoryCleanup'' (ARuntimeError ''index out of range'') w1
      = Some (Return None, w1)"
      unfolding secondary_alert_def using c1 by (rule SendEmailException_nil)
    from LogDirectoryCleanup_recovers [OF body [unfolded p] this] show ?thesis by blast
  qed
qed

lemma turnOnLogging_fresh:
  "logger (turnOnLogging L fh w) = logger (turnOnLogging L fh world0)"
  "tl_EmailConfiguration (logger (turnOnLogging L fh w)) = None"
  "tl_LogFile (logger (turnOnLogging L fh w)) = None"
  "ready (logger (turnOnLogging L fh w))"
  "open_files (turnOnLogging L fh w) = open_files w"
  by (simp_all add: ready_def turnOnLogging_def zero_traceLog_def Let_def split: prod.splits)

lemma StartFile_cases:
  "(\<exists>s. StartFile (Suc n) env L base keep w = Some (Exit s, w))
   \<or> (\<exists>logf w'. StartFile (Suc n) env L base keep w = Some (Return (), w')
        \<and> logger w' = logger (turnOnLogging L (Some (FileHandle logf)) world0)
        \<and> open_files w' = open_files w @ [logf])"
proof (cases "os_MkdirAll env (strings_TrimRight base (CHR ''/'') @ ''/'' @ time_Format env ''2006-01-02'' @ ''/'')")
  case (Some err)
  then show ?thesis by (simp add: StartFile_def Let_def)
next
  case None
  let ?path = "(strings_TrimRight base (CHR ''/'') @ ''/'' @ time_Format env ''2006-01-02'' @ ''/'')
     @ map (\<lambda>c. if c = CHR '' '' then CHR ''-'' else c) (time_Format env ''2006-01-02T15-04-05'' @ ''.txt'')"
  show ?thesis
  proof (cases "os_Create env ?path")
    case (Inl err)
    with None show ?thesis by (simp add: StartFile_def Let_def)
  next
    case (Inr logf)
    let ?w1 = "turnOnLogging L (Some (FileHandle logf)) (w\<lparr>open_files := open_files w @ [logf]\<rparr>)"
    have r: "ready (logger ?w1)" by (rule turnOnLogging_fresh(4))
    have c: "tl_EmailConfiguration (logger ?w1) = None" by (rule turnOnLogging_fresh(2))
    from LogDirectoryCleanup_returns [OF r c, of n env "strings_TrimRight base (CHR ''/'')" keep]
    obtain w' where l: "LogDirectoryCleanup (Suc n) env (strings_TrimRight base (CHR ''/'')) keep ?w1
       = Some (Return (), w')" by blast
    from LogDirectoryCleanup_ready [OF r l]
    have "logger w' = logger ?w1" "open_files w' = open_files ?w1" by simp_all
    then have "logger w' = logger (turnOnLogging L (Some (FileHandle logf)) world0)"
      "open_files w' = open_files w @ [logf]"
      using turnOnLogging_fresh(1) [of L "Some (FileHandle logf)" "w\<lparr>open_files := open_files w @ [logf]\<rparr>"]
        turnOnLogging_fresh(5) [of L "Some (FileHandle logf)" "w\<lparr>open_files := open_files w @ [logf]\<rparr>"]
      by simp_all
    moreover from None Inr l have "StartFile (Suc n) env L base keep w = Some (Return (), w')"
      by (simp add: StartFile_def Let_def)
    ultimately show ?thesis by blast
  qed
qed

lemma Stop_without_LogFile:
  assumes "ready (logger w)" "tl_LogFile (logger w) = None"
  shows "\<exists>w'. Stop env w = (Return None, w') \<and> open_files w' = open_files w \<and> logger w' = logger w"
proof -
  from log_swept(4) [OF assms(1)] obtain w1 where
    a: "Started ''main'' ''Stop'' w = (Return (), w1)" and s1: "swept w w1 []" by blast
  from s1 assms have r1: "ready (logger w1)" and n1: "tl_LogFile (logger w1) = None"
    by (simp_all add: swept_def)
  from log_swept(5) [OF r1] obtain w2 where
    b: "Completed ''main'' ''Stop'' w1 = (Return (), w2)" and s2: "swept w1 w2 []" by blast
  from a b n1 have "Stop env w = (Return None, w2)" by (simp add: Stop_def)
  with swept_trans [OF s1 s2] show ?thesis by (simp add: swept_def)
qed

lemma Stop_after_StartFile:
  assumes "StartFile (Suc n) env L base keep w = Some (Return (), w1)"
  shows "\<exists>logf w2. open_files w1 = open_files w @ [logf] \<and> tl_LogFile (logger w1) = None
     \<and> Stop env' w1 = (Return None, w2) \<and> open_files w2 = open_files w1"
proof -
  from StartFile_cases [of n env L base keep w] assms obtain logf where
    l: "logger w1 = logger (turnOnLogging L (Some (FileHandle logf)) world0)"
    and f: "open_files w1 = open_files w @ [logf]" by auto
  from l have r: "ready (logger w1)" and n: "tl_LogFile (logger w1) = None"
    using turnOnLogging_fresh(3,4) [of L "Some (FileHandle logf)" world0] by simp_all
  from Stop_without_LogFile [OF r n, of env'] f n show ?thesis by auto
qed

text \<open>
  C5 fails on the code (a defect of the code). \<open>StartFile\<close> on the fresh world opens
  the file 3 and hands it to \<open>turnOnLogging\<close> as a writer, but nothing ever assigns
  \<open>logger.LogFile\<close>: it is nil after \<open>StartFile\<close>. So \<open>Stop\<close> does not close the file,
  which stays open, and returns nil although closing would have failed with an error.
\<close>

theorem C5_Stop_leaves_file_open:
  "file_Close env_close_fails 3 = Some ''close failed''
   \<and> (\<exists>w1 w2. StartFile (Suc 0) env_close_fails LEVEL_TRACE ''/logs/'' 5 world0 = Some (Return (), w1)
        \<and> open_files w1 = [3] \<and> tl_LogFile (logger w1) = None
        \<and> Stop env_close_fails w1 = (Return None, w2) \<and> open_files w2 = [3])"
  by (simp add: StartFile_def Stop_def LogDirectoryCleanup_def sweep_defs eval_defs
      env_close_fails_def strings_TrimRight_def Started_def recovered_def Let_def)


text \<open>An alert before and after a second \<open>Start\<close>: one mail, then none.\<close>

lemma alert_after_restart_example:
  "map_option (\<lambda>(r, w). length (mails w))
     (Alert (Suc 0) env0 ''disk'' ''main'' ''Example'' ''disk full'' [] world_mail) = Some 1
   \<and> map_option (\<lambda>(r, w). length (mails w))
     (Alert (Suc 0) env0 ''disk'' ''main'' ''Example'' ''disk full'' [] (Start LEVEL_TRACE world_mail))
       = Some 0"
  by (simp add: Alert_def world_mail_def eval_defs SendEmailException_body_def recovered_def
      EmailScript_def Let_def)

end
